theory Spec2Isabelle
  imports Complex_Main "HOL-Library.AList"
begin

section \<open>Python values used by the weather tool\<close>

text \<open>
  Python \<open>str\<close> values are modelled by \<^typ>\<open>string\<close>: one \<^typ>\<open>char\<close> per code point,
  for the code points 0 to 255 (Latin-1, which holds the Portuguese city names and
  messages of the tool). Texts that hold a code point above 255 (the display template's
  emoji) are lists of code points.

  A \<open>datetime\<close> is the number of microseconds since a fixed instant, a \<open>timedelta\<close>
  a number of microseconds.

  A Python \<open>float\<close> is a finite double, given by the rational number it denotes
  (\<open>Float 0\<close> is \<open>0.0\<close>), or one of the four values that no rational denotes: the
  negative zero \<open>-0.0\<close>, the two infinities and NaN.
\<close>

datatype pyfloat = Float rat | NegZero | PosInf | NegInf | NaN
type_synonym datetime = int
type_synonym timedelta = int
type_synonym unicode = "nat list"

definition cp :: "string \<Rightarrow> unicode" where
  "cp s = map of_char s"

subsection \<open>\<open>str.lower\<close> and \<open>str.strip\<close>\<close>

text \<open>
  On Latin-1, \<open>str.lower\<close> maps \<open>A\<close>..\<open>Z\<close> and the accented capitals
  U+00C0..U+00DE (the multiplication sign U+00D7 apart) to the code point 32 above, and
  leaves every other character as it is.
\<close>

definition is_upper :: "char \<Rightarrow> bool" where
  "is_upper c = (let n = (of_char c :: nat) in
     (65 \<le> n \<and> n \<le> 90) \<or> (192 \<le> n \<and> n \<le> 222 \<and> n \<noteq> 215))"

definition lower_char :: "char \<Rightarrow> char" where
  "lower_char c = (if is_upper c then char_of ((of_char c :: nat) + 32) else c)"

definition lower :: "string \<Rightarrow> string" where
  "lower s = map lower_char s"

text \<open>
  \<open>str.strip()\<close> removes leading and trailing whitespace, the characters of
  \<open>str.isspace\<close>: U+0009..U+000D, U+001C..U+0020, U+0085 and U+00A0.
\<close>

definition is_space :: "char \<Rightarrow> bool" where
  "is_space c = (let n = (of_char c :: nat) in
     (9 \<le> n \<and> n \<le> 13) \<or> (28 \<le> n \<and> n \<le> 32) \<or> n = 133 \<or> n = 160)"

definition strip :: "string \<Rightarrow> string" where
  "strip s = rev (dropWhile is_space (rev (dropWhile is_space s)))"

subsection \<open>\<open>str\<close> of an integer\<close>

definition digit_char :: "nat \<Rightarrow> char" where
  "digit_char d = char_of (48 + d)"

function str_nat :: "nat \<Rightarrow> string" where
  "str_nat n = (if n < 10 then [digit_char n] else str_nat (n div 10) @ [digit_char (n mod 10)])"
  by pat_completeness auto
termination
  by (relation "measure (\<lambda>n. n)") auto

definition str_int :: "int \<Rightarrow> string" where
  "str_int i = (if i < 0 then CHR ''-'' # str_nat (nat (- i)) else str_nat (nat i))"

section \<open>The data model (models.py)\<close>

record WeatherMain =
  temp :: pyfloat
  temp_min :: pyfloat
  temp_max :: pyfloat
  humidity :: int
  feels_like :: pyfloat

record WeatherDescription =
  wd_main :: string
  description :: string
  icon :: string

record WeatherData =
  city_name :: string
  country :: "string option"
  main :: WeatherMain
  weather :: "WeatherDescription list"
  timestamp :: datetime

subsection \<open>Construction of a \<open>WeatherMain\<close>\<close>

text \<open>
  \<open>round(v, 1)\<close> rounds the exact value of a finite float to one decimal, a tie going
  to the even digit, and keeps the sign of a negative value that rounds to zero; it
  returns any other float as it is. The conversion of the decimal back to the nearest
  double is not modelled.
\<close>

definition round_half_even :: "rat \<Rightarrow> int" where
  "round_half_even x = (let f = \<lfloor>x\<rfloor>; d = x - of_int f in
     if d < 1 / 2 then f
     else if 1 / 2 < d then f + 1
     else if even f then f else f + 1)"

fun round1 :: "pyfloat \<Rightarrow> pyfloat" where
  "round1 (Float r) =
     (let k = round_half_even (r * 10)
      in if k = 0 \<and> r < 0 then NegZero else Float (of_int k / 10))"
| "round1 v = v"

text \<open>The comparisons \<open>n <= v\<close> and \<open>v <= n\<close> of a float with an integer.\<close>

fun int_le_float :: "int \<Rightarrow> pyfloat \<Rightarrow> bool" where
  "int_le_float n (Float r) = (of_int n \<le> r)"
| "int_le_float n NegZero = (n \<le> 0)"
| "int_le_float n PosInf = True"
| "int_le_float n NegInf = False"
| "int_le_float n NaN = False"

fun float_le_int :: "pyfloat \<Rightarrow> int \<Rightarrow> bool" where
  "float_le_int (Float r) n = (r \<le> of_int n)"
| "float_le_int NegZero n = (0 \<le> n)"
| "float_le_int PosInf n = False"
| "float_le_int NegInf n = True"
| "float_le_int NaN n = False"

text \<open>
  The validator of the fields \<open>temp\<close>, \<open>temp_min\<close> and \<open>temp_max\<close>: \<open>None\<close> is its
  \<open>ValueError\<close>.
\<close>

definition validate_temperature :: "pyfloat \<Rightarrow> pyfloat option" where
  "validate_temperature v =
     (if \<not> (int_le_float (- 50) v \<and> float_le_int v 60) then None else Some (round1 v))"

text \<open>The constraint \<open>Field(..., ge=0, le=100)\<close> of \<open>humidity\<close>.\<close>

definition humidity_ok :: "int \<Rightarrow> bool" where
  "humidity_ok h = (0 \<le> h \<and> h \<le> 100)"

text \<open>
  Pydantic validates every field and, when any of them failed, raises one
  \<open>ValidationError\<close> that lists the failing fields in the order of their declaration.
\<close>

datatype pydantic_error = ValidationError "string list"

definition field_errors :: "pyfloat \<Rightarrow> pyfloat \<Rightarrow> pyfloat \<Rightarrow> int \<Rightarrow> pyfloat \<Rightarrow> string list" where
  "field_errors t tmin tmax h f =
     (if validate_temperature t = None then [''temp''] else []) @
     (if validate_temperature tmin = None then [''temp_min''] else []) @
     (if validate_temperature tmax = None then [''temp_max''] else []) @
     (if humidity_ok h then [] else [''humidity''])"

definition WeatherMain_init ::
  "pyfloat \<Rightarrow> pyfloat \<Rightarrow> pyfloat \<Rightarrow> int \<Rightarrow> pyfloat \<Rightarrow> pydantic_error + WeatherMain" where
  "WeatherMain_init t tmin tmax h f =
     (case (validate_temperature t, validate_temperature tmin, validate_temperature tmax) of
        (Some t', Some tmin', Some tmax') \<Rightarrow>
          if humidity_ok h
          then Inr \<lparr>temp = t', temp_min = tmin', temp_max = tmax', humidity = h,
                    feels_like = f\<rparr>
          else Inl (ValidationError (field_errors t tmin tmax h f))
      | _ \<Rightarrow> Inl (ValidationError (field_errors t tmin tmax h f)))"

subsection \<open>The adapters\<close>

text \<open>
  \<open>self.weather[0]\<close> raises \<open>IndexError\<close> on an empty list; \<open>None\<close> is that failure.
\<close>

definition first_item :: "'a list \<Rightarrow> 'a option" where
  "first_item xs = (case xs of [] \<Rightarrow> None | x # _ \<Rightarrow> Some x)"

definition conditions_of :: "WeatherData \<Rightarrow> string \<Rightarrow> string option" where
  "conditions_of w dflt =
     (if weather w \<noteq> [] then map_option description (first_item (weather w)) else Some dflt)"

record location_fmt =
  loc_city :: string
  loc_country :: "string option"

record temperature_fmt =
  tf_current :: pyfloat
  tf_min :: pyfloat
  tf_max :: pyfloat
  tf_feels_like :: pyfloat

record agent_format =
  af_location :: location_fmt
  af_temperature :: temperature_fmt
  af_conditions :: string
  af_humidity :: int
  af_timestamp :: string

text \<open>The parameter \<open>isoformat\<close> is \<open>datetime.isoformat\<close>.\<close>

definition to_agent_format :: "(datetime \<Rightarrow> string) \<Rightarrow> WeatherData \<Rightarrow> agent_format option" where
  "to_agent_format isoformat w =
     (case conditions_of w ''unknown'' of
        None \<Rightarrow> None
      | Some c \<Rightarrow> Some
          \<lparr>af_location = \<lparr>loc_city = city_name w, loc_country = country w\<rparr>,
           af_temperature = \<lparr>tf_current = temp (main w), tf_min = temp_min (main w),
                             tf_max = temp_max (main w), tf_feels_like = feels_like (main w)\<rparr>,
           af_conditions = c,
           af_humidity = humidity (main w),
           af_timestamp = isoformat (timestamp w)\<rparr>)"

text \<open>
  The display template. The parameter \<open>str_float\<close> is \<open>str\<close> on a float. The first line
  of the template starts with the thermometer emoji, U+1F321 U+FE0F.
\<close>

definition line1 :: unicode where
  "line1 = [10, 0x1F321, 0xFE0F] @ cp '' Clima em ''"

definition line2 :: unicode where
  "line2 = 10 # cp ''Temperatura: ''"

definition feels_open :: unicode where
  "feels_open = [0xB0] @ cp ''C (sensa'' @ [0xE7, 0xE3] @ cp ''o: ''"

definition line3 :: unicode where
  "line3 = [0xB0] @ cp ''C)'' @ [10] @ cp ''Condi'' @ [0xE7, 0xF5] @ cp ''es: ''"

definition line4 :: unicode where
  "line4 = 10 # cp ''Umidade: ''"

definition to_display_format :: "(pyfloat \<Rightarrow> string) \<Rightarrow> WeatherData \<Rightarrow> unicode option" where
  "to_display_format str_float w =
     (case conditions_of w ''N/A'' of
        None \<Rightarrow> None
      | Some c \<Rightarrow> Some
          (line1 @ cp (city_name w) @
           line2 @ cp (str_float (temp (main w))) @ feels_open @
             cp (str_float (feels_like (main w))) @
           line3 @ cp c @
           line4 @ cp (str_int (humidity (main w))) @ cp ''%'' @ [10]))"

section \<open>The error taxonomy (exceptions.py)\<close>

text \<open>
  The four exception classes of the tool, each with the message it was raised with.
  \<open>WeatherAPIError\<close> is the base class; a value built with this constructor is an
  instance of the base class itself.
\<close>

datatype error =
    WeatherAPIError string
  | CityNotFoundError string
  | InvalidAPIKeyError string
  | NetworkError string

fun str_error :: "error \<Rightarrow> string" where
  "str_error (WeatherAPIError m) = m"
| "str_error (CityNotFoundError m) = m"
| "str_error (InvalidAPIKeyError m) = m"
| "str_error (NetworkError m) = m"

definition bindE :: "'e + 'a \<Rightarrow> ('a \<Rightarrow> 'e + 'b) \<Rightarrow> 'e + 'b" where
  "bindE m f = (case m of Inl e \<Rightarrow> Inl e | Inr a \<Rightarrow> f a)"

section \<open>Response parsing (client.py, \<open>_parse_response\<close>)\<close>

text \<open>
  The body that \<open>response.json()\<close> returns. A JSON object becomes a Python \<open>dict\<close>, here
  the list of its items; \<open>map_of\<close> is the lookup.
\<close>

datatype json =
    JNull
  | JBool bool
  | JInt int
  | JFloat pyfloat
  | JStr string
  | JList "json list"
  | JDict "(string \<times> json) list"

text \<open>
  What the libraries under the parser do is a parameter: the conversions pydantic applies
  to the value given for a \<open>float\<close>, an \<open>int\<close> and a \<open>str\<close> field (\<open>None\<close>: the value is
  rejected), and the text of the exception, other than a \<open>KeyError\<close>, that processing a
  body raises.
\<close>

record pylib =
  as_float :: "json \<Rightarrow> pyfloat option"
  as_int :: "json \<Rightarrow> int option"
  as_str :: "json \<Rightarrow> string option"
  exc_text :: "json \<Rightarrow> string"

subsection \<open>The conversions of pydantic\<close>

text \<open>
  An instance of the library for the concrete scenarios: the conversions of pydantic 2
  in its default, lax mode. A \<open>float\<close> field takes a float, an integer, a boolean or a
  numeric string; an \<open>int\<close> field an integer, a boolean, a float without fraction or a
  string of digits; a \<open>str\<close> field a string only. Of the numeric strings it reads an
  optional sign, digits and an optional fraction; pydantic reads further forms (an
  exponent, surrounding whitespace), which this instance rejects.
\<close>

definition digit_of :: "char \<Rightarrow> nat option" where
  "digit_of c = (let n = (of_char c :: nat) in if 48 \<le> n \<and> n \<le> 57 then Some (n - 48) else None)"

fun digits_value :: "nat \<Rightarrow> string \<Rightarrow> nat option" where
  "digits_value acc [] = Some acc"
| "digits_value acc (c # cs) =
     (case digit_of c of None \<Rightarrow> None | Some d \<Rightarrow> digits_value (10 * acc + d) cs)"

definition nat_of_digits :: "string \<Rightarrow> nat option" where
  "nat_of_digits s = (if s = [] then None else digits_value 0 s)"

fun split_sign :: "string \<Rightarrow> bool \<times> string" where
  "split_sign [] = (False, [])"
| "split_sign (c # cs) =
     (if c = CHR ''-'' then (True, cs) else if c = CHR ''+'' then (False, cs) else (False, c # cs))"

definition int_of_str :: "string \<Rightarrow> int option" where
  "int_of_str s =
     (case split_sign s of
        (neg, ds) \<Rightarrow> map_option (\<lambda>n. if neg then - int n else int n) (nat_of_digits ds))"

definition signed :: "bool \<Rightarrow> rat \<Rightarrow> pyfloat" where
  "signed neg r = (if neg then (if r = 0 then NegZero else Float (- r)) else Float r)"

definition float_of_str :: "string \<Rightarrow> pyfloat option" where
  "float_of_str s =
     (case split_sign s of
        (neg, body) \<Rightarrow>
          (case nat_of_digits (takeWhile (\<lambda>c. c \<noteq> CHR ''.'') body) of
             None \<Rightarrow> None
           | Some n \<Rightarrow>
               (case dropWhile (\<lambda>c. c \<noteq> CHR ''.'') body of
                  [] \<Rightarrow> Some (signed neg (of_nat n))
                | _ # fp \<Rightarrow>
                    (case nat_of_digits fp of
                       None \<Rightarrow> None
                     | Some m \<Rightarrow> Some (signed neg (of_nat n + of_nat m / 10 ^ length fp))))))"

definition lax_float :: "json \<Rightarrow> pyfloat option" where
  "lax_float j =
     (case j of
        JFloat x \<Rightarrow> Some x
      | JInt i \<Rightarrow> Some (Float (of_int i))
      | JBool b \<Rightarrow> Some (Float (if b then 1 else 0))
      | JStr s \<Rightarrow> float_of_str s
      | _ \<Rightarrow> None)"

definition lax_int :: "json \<Rightarrow> int option" where
  "lax_int j =
     (case j of
        JInt i \<Rightarrow> Some i
      | JBool b \<Rightarrow> Some (if b then 1 else 0)
      | JFloat (Float r) \<Rightarrow> (if r = of_int \<lfloor>r\<rfloor> then Some \<lfloor>r\<rfloor> else None)
      | JFloat NegZero \<Rightarrow> Some 0
      | JStr s \<Rightarrow> int_of_str s
      | _ \<Rightarrow> None)"

definition lax :: pylib where
  "lax = \<lparr>
     as_float = lax_float,
     as_int = lax_int,
     as_str = (\<lambda>j. case j of JStr s \<Rightarrow> Some s | _ \<Rightarrow> None),
     exc_text = (\<lambda>j. ''(text of the exception)'')\<rparr>"

subsection \<open>The parser\<close>

text \<open>
  The exceptions raised inside the \<open>try\<close> block of the parser: a \<open>KeyError\<close> with its
  key, or any other exception (\<open>TypeError\<close>, \<open>AttributeError\<close>, pydantic's
  \<open>ValidationError\<close>), which the second handler catches.
\<close>

datatype py_exc = KeyError string | OtherException

text \<open>\<open>d[k]\<close>: a \<open>KeyError\<close> on a dict without the key, a \<open>TypeError\<close> on any other value.\<close>

fun subscript :: "json \<Rightarrow> string \<Rightarrow> py_exc + json" where
  "subscript (JDict d) k = (case map_of d k of Some v \<Rightarrow> Inr v | None \<Rightarrow> Inl (KeyError k))"
| "subscript _ k = Inl OtherException"

definition sub2 :: "json \<Rightarrow> string \<Rightarrow> string \<Rightarrow> py_exc + json" where
  "sub2 data a b = bindE (subscript data a) (\<lambda>m. subscript m b)"

text \<open>
  \<open>WeatherMain(temp=..., ...)\<close> on the values of the body: pydantic converts each value
  to the type of its field, then checks it.
\<close>

definition WeatherMain_of_json ::
  "pylib \<Rightarrow> json \<Rightarrow> json \<Rightarrow> json \<Rightarrow> json \<Rightarrow> json \<Rightarrow> py_exc + WeatherMain" where
  "WeatherMain_of_json L jt jmin jmax jh jf =
     (case (as_float L jt, as_float L jmin, as_float L jmax, as_int L jh, as_float L jf) of
        (Some t, Some tmin, Some tmax, Some h, Some f) \<Rightarrow>
          (case WeatherMain_init t tmin tmax h f of
             Inl _ \<Rightarrow> Inl OtherException
           | Inr m \<Rightarrow> Inr m)
      | _ \<Rightarrow> Inl OtherException)"

definition build_main :: "pylib \<Rightarrow> json \<Rightarrow> py_exc + WeatherMain" where
  "build_main L data =
     bindE (sub2 data ''main'' ''temp'') (\<lambda>jt.
     bindE (sub2 data ''main'' ''temp_min'') (\<lambda>jmin.
     bindE (sub2 data ''main'' ''temp_max'') (\<lambda>jmax.
     bindE (sub2 data ''main'' ''humidity'') (\<lambda>jh.
     bindE (sub2 data ''main'' ''feels_like'') (\<lambda>jf.
       WeatherMain_of_json L jt jmin jmax jh jf)))))"

definition build_description :: "pylib \<Rightarrow> json \<Rightarrow> py_exc + WeatherDescription" where
  "build_description L w =
     bindE (subscript w ''main'') (\<lambda>jm.
     bindE (subscript w ''description'') (\<lambda>jd.
     bindE (subscript w ''icon'') (\<lambda>ji.
       (case (as_str L jm, as_str L jd, as_str L ji) of
          (Some m, Some d, Some i) \<Rightarrow> Inr \<lparr>wd_main = m, description = d, icon = i\<rparr>
        | _ \<Rightarrow> Inl OtherException))))"

text \<open>
  \<open>for w in v\<close>: a list gives its items, a dict its keys, a string its characters; any
  other value is not iterable.
\<close>

fun iterate :: "json \<Rightarrow> py_exc + json list" where
  "iterate (JList xs) = Inr xs"
| "iterate (JDict d) = Inr (map (\<lambda>(k, v). JStr k) d)"
| "iterate (JStr s) = Inr (map (\<lambda>c. JStr [c]) s)"
| "iterate _ = Inl OtherException"

fun build_list :: "pylib \<Rightarrow> json list \<Rightarrow> py_exc + WeatherDescription list" where
  "build_list L [] = Inr []"
| "build_list L (w # ws) =
     bindE (build_description L w) (\<lambda>d.
     bindE (build_list L ws) (\<lambda>ds. Inr (d # ds)))"

text \<open>\<open>data.get("sys", {}).get("country")\<close>; a value without \<open>get\<close> raises \<open>AttributeError\<close>.\<close>

definition get_country :: "(string \<times> json) list \<Rightarrow> py_exc + json option" where
  "get_country d =
     (case (case map_of d ''sys'' of Some v \<Rightarrow> v | None \<Rightarrow> JDict []) of
        JDict sd \<Rightarrow> Inr (map_of sd ''country'')
      | _ \<Rightarrow> Inl OtherException)"

text \<open>
  \<open>WeatherData(city_name=..., country=..., main=..., weather=...)\<close>: no timestamp is
  given, so the field takes its default, the clock reading \<open>now\<close> of
  \<open>default_factory=datetime.now\<close>.
\<close>

definition WeatherData_of_json ::
  "pylib \<Rightarrow> datetime \<Rightarrow> json \<Rightarrow> json option \<Rightarrow> WeatherMain \<Rightarrow> WeatherDescription list
     \<Rightarrow> py_exc + WeatherData" where
  "WeatherData_of_json L now jname jc m wl =
     (case as_str L jname of
        None \<Rightarrow> Inl OtherException
      | Some n \<Rightarrow>
          (case (case jc of
                   None \<Rightarrow> Some None
                 | Some JNull \<Rightarrow> Some None
                 | Some v \<Rightarrow> map_option Some (as_str L v)) of
             None \<Rightarrow> Inl OtherException
           | Some c \<Rightarrow>
               Inr \<lparr>city_name = n, country = c, main = m, weather = wl, timestamp = now\<rparr>))"

text \<open>
  The body of the \<open>try\<close> block. The logging call evaluates \<open>data.get('name', 'unknown')\<close>
  first, an \<open>AttributeError\<close> unless the body is a dict.
\<close>

definition parse_body :: "pylib \<Rightarrow> datetime \<Rightarrow> json \<Rightarrow> py_exc + WeatherData" where
  "parse_body L now data =
     (case data of
        JDict d \<Rightarrow>
          bindE (build_main L data) (\<lambda>m.
          bindE (iterate (case map_of d ''weather'' of Some v \<Rightarrow> v | None \<Rightarrow> JList [])) (\<lambda>items.
          bindE (build_list L items) (\<lambda>wl.
          bindE (subscript data ''name'') (\<lambda>jname.
          bindE (get_country d) (\<lambda>jc.
            WeatherData_of_json L now jname jc m wl)))))
      | _ \<Rightarrow> Inl OtherException)"

text \<open>\<open>str\<close> of a \<open>KeyError\<close> is the \<open>repr\<close> of its key: the key between single quotes.\<close>

definition repr_key :: "string \<Rightarrow> string" where
  "repr_key k = [CHR 0x27] @ k @ [CHR 0x27]"

definition incomplete_msg :: "string \<Rightarrow> string" where
  "incomplete_msg k =
     ''Dados incompletos da API: campo '' @ repr_key k @ '' n'' @ [CHR 0xE3] @ ''o encontrado''"

definition processing_msg :: "string \<Rightarrow> string" where
  "processing_msg t = ''Erro ao processar dados: '' @ t"

definition parse_response :: "pylib \<Rightarrow> datetime \<Rightarrow> json \<Rightarrow> error + WeatherData" where
  "parse_response L now data =
     (case parse_body L now data of
        Inr w \<Rightarrow> Inr w
      | Inl (KeyError k) \<Rightarrow> Inl (WeatherAPIError (incomplete_msg k))
      | Inl OtherException \<Rightarrow> Inl (WeatherAPIError (processing_msg (exc_text L data))))"

section \<open>The fetch client (client.py, \<open>_fetch_from_api\<close>)\<close>

record WeatherConfig =
  api_key :: "string option"
  base_url :: string
  timeout :: int

text \<open>The call \<open>requests.get(base_url, params=params, timeout=timeout)\<close>.\<close>

record request =
  req_url :: string
  q :: string
  appid :: "string option"
  units :: string
  lang :: string
  req_timeout :: int

text \<open>
  An exception that \<open>requests.get\<close> or \<open>response.json()\<close> raises, by the handler that
  catches it (\<open>except Timeout\<close>, then \<open>except RequestException\<close>, then
  \<open>except Exception\<close>), with its text. Neither call raises an \<open>HTTPError\<close>: that one
  comes from \<open>raise_for_status\<close>.
\<close>

datatype exc_class = Timeout | RequestException | AnyException

datatype raised = Raised exc_class string

record response =
  status_code :: int
  reason :: string
  url :: string
  json_result :: "raised + json"

text \<open>
  \<open>Response.raise_for_status\<close> of the requests library: an \<open>HTTPError\<close> with this text
  for a status from 400 to 599, nothing for any other status.
\<close>

definition http_error_msg :: "response \<Rightarrow> string option" where
  "http_error_msg r =
     (if 400 \<le> status_code r \<and> status_code r < 500
      then Some (str_int (status_code r) @ '' Client Error: '' @ reason r @ '' for url: '' @ url r)
      else if 500 \<le> status_code r \<and> status_code r < 600
      then Some (str_int (status_code r) @ '' Server Error: '' @ reason r @ '' for url: '' @ url r)
      else None)"

text \<open>
  The world around one call of \<open>get_weather\<close>: the library parameters, the answer of
  the network to a request, and the readings of \<open>datetime.now()\<close> at the three places
  that read the clock (the freshness check, the default of the record's timestamp, the
  insertion into the cache).
\<close>

record env =
  lib :: pylib
  send :: "request \<Rightarrow> raised + response"
  now_check :: datetime
  now_parse :: datetime
  now_store :: datetime

definition city_not_found_msg :: "string \<Rightarrow> string" where
  "city_not_found_msg city =
     ''Cidade '' @ [CHR 0x27] @ city @ [CHR 0x27] @ '' n'' @ [CHR 0xE3] @ ''o encontrada''"

definition invalid_key_msg :: string where
  "invalid_key_msg = ''API key inv'' @ [CHR 0xE1] @ ''lida''"

definition api_error_msg :: "string \<Rightarrow> string" where
  "api_error_msg e = ''Erro na API: '' @ e"

definition timeout_msg :: "string \<Rightarrow> string" where
  "timeout_msg city = ''Timeout ao buscar '' @ city"

definition connection_msg :: "string \<Rightarrow> string" where
  "connection_msg e = ''Erro de conex'' @ [CHR 0xE3] @ ''o: '' @ e"

definition unexpected_msg :: "string \<Rightarrow> string" where
  "unexpected_msg e = ''Erro inesperado: '' @ e"

text \<open>The handlers for an exception of \<open>requests.get\<close> or \<open>response.json()\<close>.\<close>

fun handle_raised :: "string \<Rightarrow> raised \<Rightarrow> error" where
  "handle_raised city (Raised Timeout e) = NetworkError (timeout_msg city)"
| "handle_raised city (Raised RequestException e) = NetworkError (connection_msg e)"
| "handle_raised city (Raised AnyException e) = WeatherAPIError (unexpected_msg e)"

text \<open>The handler \<open>except HTTPError as e\<close>, \<open>e\<close> being the text of \<open>raise_for_status\<close>.\<close>

definition handle_http_error :: "string \<Rightarrow> response \<Rightarrow> string \<Rightarrow> error" where
  "handle_http_error city r e =
     (if status_code r = 404 then CityNotFoundError (city_not_found_msg city)
      else if status_code r = 401 then InvalidAPIKeyError invalid_key_msg
      else WeatherAPIError (api_error_msg e))"

definition build_request :: "WeatherConfig \<Rightarrow> string \<Rightarrow> request" where
  "build_request cfg city =
     \<lparr>req_url = base_url cfg, q = strip city, appid = api_key cfg,
      units = ''metric'', lang = ''pt_br'', req_timeout = timeout cfg\<rparr>"

text \<open>
  The result, and the requests sent to the network. An error that \<open>_parse_response\<close>
  raises is a \<open>WeatherAPIError\<close>, which the last handler of \<open>_fetch_from_api\<close>,
  \<open>except Exception\<close>, catches and raises again under the text for an unexpected error.
\<close>

definition fetch_from_api :: "env \<Rightarrow> WeatherConfig \<Rightarrow> string \<Rightarrow> (error + WeatherData) \<times> request list" where
  "fetch_from_api E cfg city =
     (let req = build_request cfg city in
      (case send E req of
         Inl x \<Rightarrow> Inl (handle_raised city x)
       | Inr r \<Rightarrow>
           (case http_error_msg r of
              Some e \<Rightarrow> Inl (handle_http_error city r e)
            | None \<Rightarrow>
                (case json_result r of
                   Inl x \<Rightarrow> Inl (handle_raised city x)
                 | Inr data \<Rightarrow>
                     (case parse_response (lib E) (now_parse E) data of
                        Inl e \<Rightarrow> Inl (WeatherAPIError (unexpected_msg (str_error e)))
                      | Inr w \<Rightarrow> Inr w))),
       [req]))"

section \<open>The cache store (client.py, \<open>WeatherTool\<close>)\<close>

text \<open>
  A cache entry is the dict \<open>{"data": ..., "timestamp": ...}\<close>; \<open>entry_timestamp\<close> is
  what \<open>cache_entry.get("timestamp")\<close> returns, \<open>None\<close> when the key is missing.
  The cache is a Python dict, kept as the list of its items in insertion order.
\<close>

record cache_entry =
  entry_data :: WeatherData
  entry_timestamp :: "datetime option"

record WeatherTool =
  config :: WeatherConfig
  cache :: "(string \<times> cache_entry) list"
  cache_duration :: timedelta

text \<open>\<open>timedelta(minutes=10)\<close>, in microseconds.\<close>

definition ten_minutes :: timedelta where
  "ten_minutes = 10 * 60 * 1000000"

definition WeatherTool_init :: "WeatherConfig \<Rightarrow> WeatherTool" where
  "WeatherTool_init cfg = \<lparr>config = cfg, cache = [], cache_duration = ten_minutes\<rparr>"

definition is_cache_valid :: "datetime \<Rightarrow> WeatherTool \<Rightarrow> cache_entry \<Rightarrow> bool" where
  "is_cache_valid now s e =
     (case entry_timestamp e of
        None \<Rightarrow> False
      | Some cached_time \<Rightarrow> now - cached_time < cache_duration s)"

definition empty_city_msg :: string where
  "empty_city_msg = ''Nome da cidade n'' @ [CHR 0xE3] @ ''o pode estar vazio''"

definition city_key_of :: "string \<Rightarrow> string" where
  "city_key_of city = strip (lower city)"

text \<open>Steps 2 and 3 of \<open>get_weather\<close>: fetch, then store the record under the key.\<close>

definition fetch_and_store ::
  "env \<Rightarrow> WeatherTool \<Rightarrow> string \<Rightarrow> string \<Rightarrow> (error + WeatherData) \<times> WeatherTool \<times> request list" where
  "fetch_and_store E s city city_key =
     (case fetch_from_api E (config s) city of
        (Inl err, reqs) \<Rightarrow> (Inl err, s, reqs)
      | (Inr weather_data, reqs) \<Rightarrow>
          (Inr weather_data,
           s\<lparr>cache := AList.update city_key
                \<lparr>entry_data = weather_data, entry_timestamp = Some (now_store E)\<rparr> (cache s)\<rparr>,
           reqs))"

text \<open>
  The result of the call, the tool after it, and the requests it sent to the network.
\<close>

definition get_weather ::
  "env \<Rightarrow> WeatherTool \<Rightarrow> string \<Rightarrow> (error + WeatherData) \<times> WeatherTool \<times> request list" where
  "get_weather E s city =
     (if city = [] \<or> strip city = [] then (Inl (WeatherAPIError empty_city_msg), s, [])
      else
        (let city_key = city_key_of city in
         (case map_of (cache s) city_key of
            Some cache_entry \<Rightarrow>
              if is_cache_valid (now_check E) s cache_entry
              then (Inr (entry_data cache_entry), s, [])
              else fetch_and_store E (s\<lparr>cache := AList.delete city_key (cache s)\<rparr>) city city_key
          | None \<Rightarrow> fetch_and_store E s city city_key)))"

subsection \<open>Cache management\<close>

record cache_info =
  total_cities :: nat
  valid_entries :: nat
  expired_entries :: nat
  cache_duration_minutes :: rat
  cached_cities :: "string list"

text \<open>
  The freshness check reads the clock once for each entry: \<open>clk i\<close> is the reading at
  the entry of index \<open>i\<close>.
\<close>

fun count_valid :: "(nat \<Rightarrow> datetime) \<Rightarrow> WeatherTool \<Rightarrow> nat \<Rightarrow> cache_entry list \<Rightarrow> nat" where
  "count_valid clk s i [] = 0"
| "count_valid clk s i (e # es) =
     (if is_cache_valid (clk i) s e then 1 else 0) + count_valid clk s (Suc i) es"

definition get_cache_info :: "(nat \<Rightarrow> datetime) \<Rightarrow> WeatherTool \<Rightarrow> cache_info" where
  "get_cache_info clk s =
     (let valid = count_valid clk s 0 (map snd (cache s)) in
      \<lparr>total_cities = length (cache s),
       valid_entries = valid,
       expired_entries = length (cache s) - valid,
       cache_duration_minutes = of_int (cache_duration s) / 1000000 / 60,
       cached_cities = map fst (cache s)\<rparr>)"

text \<open>
  \<open>clear_cache\<close> has no \<open>return\<close> statement: it returns \<open>None\<close>. The number of entries
  goes into the log message only.
\<close>

definition clear_cache :: "WeatherTool \<Rightarrow> nat option \<times> WeatherTool" where
  "clear_cache s = (None, s\<lparr>cache := []\<rparr>)"

definition clear_cache_logged :: "WeatherTool \<Rightarrow> nat" where
  "clear_cache_logged s = length (cache s)"

subsection \<open>The states the tool can be in\<close>

text \<open>
  The keys of a Python dict are distinct, \<open>get_weather\<close> stores under a key only
  after it has rejected the names whose key is empty, and nothing assigns
  \<open>_cache_duration\<close> after the constructor.
\<close>

definition tool_inv :: "WeatherTool \<Rightarrow> bool" where
  "tool_inv s =
     (distinct (map fst (cache s)) \<and> [] \<notin> set (map fst (cache s))
      \<and> cache_duration s = ten_minutes)"

section \<open>Required fields of a response body\<close>

text \<open>
  The fields that the parser requires and that a body lacks, in the order in which the
  parser reads them: \<open>main\<close> and its five fields, the three fields of each item of the
  \<open>weather\<close> list, and \<open>name\<close>. The parser reads the list \<open>weather\<close> itself and
  \<open>sys\<close> with a default, so it requires neither.
\<close>

definition absent :: "(string \<times> json) list \<Rightarrow> string list \<Rightarrow> string list" where
  "absent d ks = filter (\<lambda>k. map_of d k = None) ks"

definition missing_main :: "json \<Rightarrow> string list" where
  "missing_main data =
     (case data of
        JDict d \<Rightarrow>
          (case map_of d ''main'' of
             None \<Rightarrow> [''main'']
           | Some (JDict md) \<Rightarrow>
               absent md [''temp'', ''temp_min'', ''temp_max'', ''humidity'', ''feels_like'']
           | Some _ \<Rightarrow> [])
      | _ \<Rightarrow> [])"

definition missing_item :: "json \<Rightarrow> string list" where
  "missing_item w =
     (case w of JDict wd \<Rightarrow> absent wd [''main'', ''description'', ''icon''] | _ \<Rightarrow> [])"

definition missing_item_fields :: "json \<Rightarrow> string list" where
  "missing_item_fields data =
     (case data of
        JDict d \<Rightarrow>
          (case map_of d ''weather'' of
             Some (JList ws) \<Rightarrow> concat (map missing_item ws)
           | _ \<Rightarrow> [])
      | _ \<Rightarrow> [])"

definition missing_name :: "json \<Rightarrow> string list" where
  "missing_name data = (case data of JDict d \<Rightarrow> absent d [''name''] | _ \<Rightarrow> [])"

definition missing_fields :: "json \<Rightarrow> string list" where
  "missing_fields data = missing_main data @ missing_item_fields data @ missing_name data"

text \<open>
  The fields that the specification documents as required and that a body lacks: those
  above and the list of condition descriptors, \<open>weather\<close>, itself. The country code is
  documented as optional.
\<close>

definition documented_missing :: "json \<Rightarrow> string list" where
  "documented_missing data =
     missing_main data
     @ (case data of JDict d \<Rightarrow> absent d [''weather''] | _ \<Rightarrow> [])
     @ missing_item_fields data @ missing_name data"

text \<open>
  Whether the parser reaches the first missing field of a body: no exception other than
  a \<open>KeyError\<close> comes before. A missing field of the \<open>main\<close> block is read first. For a
  missing field of an item, the \<open>WeatherMain\<close> must have been built and every item before
  that one too; for a missing \<open>name\<close>, the \<open>WeatherMain\<close> and every item.
\<close>

definition succeeds :: "'e + 'a \<Rightarrow> bool" where
  "succeeds r = (case r of Inr _ \<Rightarrow> True | Inl _ \<Rightarrow> False)"

fun items_clean :: "pylib \<Rightarrow> json list \<Rightarrow> bool" where
  "items_clean L [] = True"
| "items_clean L (w # ws) =
     (if missing_item w \<noteq> [] then True
      else succeeds (build_description L w) \<and> items_clean L ws)"

definition reads_cleanly :: "pylib \<Rightarrow> json \<Rightarrow> bool" where
  "reads_cleanly L data =
     (case data of
        JDict d \<Rightarrow>
          if missing_main data \<noteq> [] then True
          else succeeds (build_main L data) \<and>
            (case iterate (case map_of d ''weather'' of Some v \<Rightarrow> v | None \<Rightarrow> JList []) of
               Inr items \<Rightarrow> items_clean L items
             | Inl _ \<Rightarrow> False)
      | _ \<Rightarrow> False)"

section \<open>Concrete scenarios\<close>

definition lisbon_body :: json where
  "lisbon_body = JDict
     [(''name'', JStr ''Lisbon''),
      (''sys'', JDict [(''country'', JStr ''PT'')]),
      (''main'', JDict
         [(''temp'', JFloat (Float (51 / 2))), (''temp_min'', JInt 21),
          (''temp_max'', JFloat (Float (221 / 8))),
          (''humidity'', JInt 60), (''feels_like'', JFloat (Float (209 / 8)))]),
      (''weather'', JList
         [JDict [(''main'', JStr ''Clear''), (''description'', JStr ''clear sky''),
                 (''icon'', JStr ''01d'')]])]"

definition lisbon_main :: WeatherMain where
  "lisbon_main =
     \<lparr>temp = Float (51 / 2), temp_min = Float 21, temp_max = Float (138 / 5), humidity = 60,
      feels_like = Float (209 / 8)\<rparr>"

definition lisbon_data :: "datetime \<Rightarrow> WeatherData" where
  "lisbon_data t =
     \<lparr>city_name = ''Lisbon'', country = Some ''PT'', main = lisbon_main,
      weather = [\<lparr>wd_main = ''Clear'', description = ''clear sky'', icon = ''01d''\<rparr>],
      timestamp = t\<rparr>"

definition good_main :: json where
  "good_main = JDict
     [(''temp'', JInt 20), (''temp_min'', JInt 20), (''temp_max'', JInt 25),
      (''humidity'', JInt 50), (''feels_like'', JInt 20)]"

definition good_item :: json where
  "good_item = JDict
     [(''main'', JStr ''Clear''), (''description'', JStr ''clear sky''), (''icon'', JStr ''01d'')]"

text \<open>A body without \<open>name\<close> whose temperature is out of range.\<close>

definition hot_nameless_body :: json where
  "hot_nameless_body = JDict
     [(''main'', JDict
         [(''temp'', JInt 70), (''temp_min'', JInt 20), (''temp_max'', JInt 25),
          (''humidity'', JInt 50), (''feels_like'', JInt 20)]),
      (''weather'', JList [])]"

text \<open>A body without \<open>main.humidity\<close>.\<close>

definition dry_body :: json where
  "dry_body = JDict
     [(''name'', JStr ''Lisbon''),
      (''main'', JDict
         [(''temp'', JInt 20), (''temp_min'', JInt 20), (''temp_max'', JInt 25),
          (''feels_like'', JInt 20)])]"

text \<open>A body without the list \<open>weather\<close>, and the record it parses to.\<close>

definition bare_body :: json where
  "bare_body = JDict [(''name'', JStr ''Lisbon''), (''main'', good_main)]"

definition bare_data :: "datetime \<Rightarrow> WeatherData" where
  "bare_data t =
     \<lparr>city_name = ''Lisbon'', country = None,
      main = \<lparr>temp = Float 20, temp_min = Float 20, temp_max = Float 25, humidity = 50,
              feels_like = Float 20\<rparr>,
      weather = [], timestamp = t\<rparr>"

text \<open>A body without \<open>name\<close>, and a body whose second item has no \<open>icon\<close>.\<close>

definition nameless_body :: json where
  "nameless_body = JDict [(''main'', good_main), (''weather'', JList [good_item])]"

definition iconless_body :: json where
  "iconless_body = JDict
     [(''name'', JStr ''Lisbon''), (''main'', good_main),
      (''weather'', JList
         [good_item,
          JDict [(''main'', JStr ''Rain''), (''description'', JStr ''light rain'')]])]"

definition test_config :: WeatherConfig where
  "test_config =
     \<lparr>api_key = Some ''0123456789abcdef'', base_url = ''https://api.test/weather'', timeout = 10\<rparr>"

text \<open>
  A network that answers every request with the given status and the body of Lisbon, and
  a clock that reads \<open>t\<close> during the whole call.
\<close>

definition answering :: "int \<Rightarrow> string \<Rightarrow> datetime \<Rightarrow> env" where
  "answering st rs t =
     \<lparr>lib = lax,
      send = (\<lambda>r. Inr \<lparr>status_code = st, reason = rs, url = req_url r,
                        json_result = Inr lisbon_body\<rparr>),
      now_check = t, now_parse = t, now_store = t\<rparr>"

definition minutes :: "int \<Rightarrow> timedelta" where
  "minutes n = n * 60 * 1000000"

definition lisbon_request :: request where
  "lisbon_request =
     \<lparr>req_url = ''https://api.test/weather'', q = ''Lisbon'', appid = Some ''0123456789abcdef'',
      units = ''metric'', lang = ''pt_br'', req_timeout = 10\<rparr>"

text \<open>The record of Lisbon without a description.\<close>

definition plain_data :: WeatherData where
  "plain_data = (lisbon_data 0)\<lparr>weather := []\<rparr>"

text \<open>
  A record whose temperature is the negative zero and whose feels-like temperature is
  NaN, and the values of \<open>str\<close> on the floats of the scenarios (\<open>?\<close> stands for its
  value on any other finite float, which no scenario renders).
\<close>

definition odd_data :: WeatherData where
  "odd_data = (lisbon_data 0)\<lparr>main := lisbon_main\<lparr>temp := NegZero, feels_like := NaN\<rparr>\<rparr>"

definition str_float_sample :: "pyfloat \<Rightarrow> string" where
  "str_float_sample x =
     (case x of NegZero \<Rightarrow> ''-0.0'' | NaN \<Rightarrow> ''nan'' | PosInf \<Rightarrow> ''inf'' | NegInf \<Rightarrow> ''-inf''
      | Float r \<Rightarrow> (if r = 51 / 2 then ''25.5'' else if r = 209 / 8 then ''26.125'' else ''?''))"

definition tool_with_lisbon :: "datetime \<Rightarrow> WeatherTool" where
  "tool_with_lisbon t =
     \<lparr>config = test_config,
      cache = [(''lisbon'', \<lparr>entry_data = lisbon_data t, entry_timestamp = Some t\<rparr>)],
      cache_duration = ten_minutes\<rparr>"

section \<open>Strings\<close>

lemma is_space_lower_char: "is_space (lower_char c) = is_space c"
proof (cases "is_upper c")
  case False
  then show ?thesis by (simp add: lower_char_def)
next
  case True
  define n where "n = (of_char c :: nat)"
  from True have r: "(65 \<le> n \<and> n \<le> 90) \<or> (192 \<le> n \<and> n \<le> 222 \<and> n \<noteq> 215)"
    by (simp add: is_upper_def n_def Let_def)
  then have "n + 32 < 256" by auto
  then have "(of_char (char_of (n + 32)) :: nat) = n + 32"
    by (simp add: of_char_of)
  then show ?thesis using r True
    by (auto simp: lower_char_def is_space_def Let_def n_def[symmetric])
qed

lemma strip_empty_iff: "strip s = [] \<longleftrightarrow> (\<forall>c\<in>set s. is_space c)"
proof
  assume a: "strip s = []"
  let ?xs = "dropWhile is_space s"
  from a have all: "\<forall>x\<in>set ?xs. is_space x"
    by (simp add: strip_def dropWhile_eq_Nil_conv)
  have "?xs = []"
  proof (rule ccontr)
    assume ne: "?xs \<noteq> []"
    then have "\<not> is_space (hd ?xs)" by (rule hd_dropWhile)
    moreover from ne have "hd ?xs \<in> set ?xs" by simp
    ultimately show False using all by blast
  qed
  then show "\<forall>c\<in>set s. is_space c" by (simp only: dropWhile_eq_Nil_conv)
next
  assume "\<forall>c\<in>set s. is_space c"
  then show "strip s = []" by (auto simp: strip_def dest: set_dropWhileD)
qed

lemma city_key_empty_iff: "city_key_of city = [] \<longleftrightarrow> strip city = []"
  by (simp add: city_key_of_def strip_empty_iff lower_def is_space_lower_char)

lemma nonempty_city: "strip city \<noteq> [] \<Longrightarrow> city \<noteq> []"
  by (auto simp: strip_def)

section \<open>The weather record\<close>

lemma round_half_even_cases:
  "round_half_even x = \<lfloor>x\<rfloor> \<and> x - of_int \<lfloor>x\<rfloor> \<le> 1 / 2
   \<or> round_half_even x = \<lfloor>x\<rfloor> + 1 \<and> 1 / 2 \<le> x - of_int \<lfloor>x\<rfloor>"
  by (auto simp: round_half_even_def Let_def)

lemma round_half_even_near: "\<bar>of_int (round_half_even x) - x\<bar> \<le> 1 / 2"
proof -
  have "of_int \<lfloor>x\<rfloor> \<le> x" and "x < of_int \<lfloor>x\<rfloor> + 1" by linarith+
  then show ?thesis using round_half_even_cases [of x] by auto
qed

lemma round_tenth_near: "\<bar>of_int (round_half_even (r * 10)) / 10 - r\<bar> \<le> 1 / 20"
proof -
  have "\<bar>of_int (round_half_even (r * 10)) - r * 10\<bar> \<le> 1 / 2"
    by (rule round_half_even_near)
  then show ?thesis by (simp add: abs_le_iff field_simps)
qed

text \<open>
  A finite float is rounded to a multiple of 1/10 at most 1/20 away; the result is the
  negative zero when that multiple is zero and the float is negative.
\<close>

lemma round1_Float:
  "round1 (Float r) = NegZero \<and> - (1 / 20) \<le> r \<and> r < 0
   \<or> (\<exists>k::int. round1 (Float r) = Float (of_int k / 10) \<and> \<bar>of_int k / 10 - r\<bar> \<le> 1 / 20)"
proof (cases "round_half_even (r * 10) = 0 \<and> r < 0")
  case True
  with round_tenth_near [of r] show ?thesis by (simp add: abs_le_iff)
next
  case False
  then have "round1 (Float r) = Float (of_int (round_half_even (r * 10)) / 10)"
    by (auto simp: Let_def)
  with round_tenth_near [of r] show ?thesis by blast
qed

lemma conditions_of_eq:
  "conditions_of w dflt = Some (case weather w of [] \<Rightarrow> dflt | d # _ \<Rightarrow> description d)"
  by (simp add: conditions_of_def first_item_def split: list.splits)

subsection \<open>Construction\<close>

text \<open>
  What the constructor checks: the current, minimum and maximum temperature against
  [-50, 60], which the infinities and NaN fail, and the humidity against 0..100. When
  all four pass, the three temperatures are rounded and the feels-like temperature is
  stored as it was given.
\<close>

lemma WeatherMain_init_checks:
  "WeatherMain_init t tmin tmax h f =
     (if (int_le_float (- 50) t \<and> float_le_int t 60)
         \<and> (int_le_float (- 50) tmin \<and> float_le_int tmin 60)
         \<and> (int_le_float (- 50) tmax \<and> float_le_int tmax 60)
         \<and> (0 \<le> h \<and> h \<le> 100)
      then Inr \<lparr>temp = round1 t, temp_min = round1 tmin, temp_max = round1 tmax,
                humidity = h, feels_like = f\<rparr>
      else Inl (ValidationError (field_errors t tmin tmax h f)))"
  by (simp add: WeatherMain_init_def validate_temperature_def humidity_ok_def)

lemma temperature_range:
  "(int_le_float (- 50) (Float r) \<and> float_le_int (Float r) 60) = (- 50 \<le> r \<and> r \<le> 60)"
  "int_le_float (- 50) NegZero \<and> float_le_int NegZero 60"
  "\<not> (int_le_float (- 50) PosInf \<and> float_le_int PosInf 60)"
  "\<not> (int_le_float (- 50) NegInf \<and> float_le_int NegInf 60)"
  "\<not> (int_le_float (- 50) NaN \<and> float_le_int NaN 60)"
  by simp_all

lemma WeatherMain_init_bounds:
  "WeatherMain_init (Float (599 / 10)) (Float (- 50)) (Float (201 / 8)) 100 (Float 20) =
     Inr \<lparr>temp = Float (599 / 10), temp_min = Float (- 50), temp_max = Float (251 / 10),
          humidity = 100, feels_like = Float 20\<rparr>
   \<and> WeatherMain_init (Float 20) (Float 20) (Float 25) 0 (Float 20) =
     Inr \<lparr>temp = Float 20, temp_min = Float 20, temp_max = Float 25, humidity = 0,
          feels_like = Float 20\<rparr>
   \<and> WeatherMain_init (Float 70) (Float 20) (Float 25) 50 (Float 20)
       = Inl (ValidationError [''temp''])
   \<and> WeatherMain_init (Float 20) (Float 20) (Float 25) 101 (Float 20)
       = Inl (ValidationError [''humidity''])"
  by code_simp

text \<open>
  Claim C3. The claim asks that construction fails unless every temperature, the
  feels-like temperature too, lies within [-50, 60], and that every temperature is
  rounded to one decimal. The code misses the feels-like field: with a feels-like
  temperature of 70.25 the construction succeeds and stores 70.25, neither checked nor
  rounded, while the same value is rejected as the current temperature.
\<close>

theorem feels_like_unchecked:
  "WeatherMain_init (Float 20) (Float 20) (Float 20) 50 (Float (281 / 4)) =
     Inr \<lparr>temp = Float 20, temp_min = Float 20, temp_max = Float 20, humidity = 50,
          feels_like = Float (281 / 4)\<rparr>
   \<and> WeatherMain_init (Float (281 / 4)) (Float 20) (Float 20) 50 (Float 20) =
     Inl (ValidationError [''temp''])
   \<and> \<not> (281 / 4 :: rat) \<le> 60
   \<and> round1 (Float (281 / 4)) = Float (351 / 5)"
  by code_simp

subsection \<open>The adapters\<close>

text \<open>
  Claim C9. Both adapters return a value for every \<open>WeatherData\<close>: the guard on the
  description list keeps \<open>self.weather[0]\<close> from failing. The agent format has the first
  description's text in \<open>conditions\<close>, or \<open>unknown\<close> when the list is empty. The display
  format is the template, given here by its code points, with the first description's
  text, or \<open>N/A\<close> (78, 47, 65) when the list is empty, on the line of the conditions.
\<close>

theorem adapters_total:
  "to_agent_format isoformat w = Some
     \<lparr>af_location = \<lparr>loc_city = city_name w, loc_country = country w\<rparr>,
      af_temperature = \<lparr>tf_current = temp (main w), tf_min = temp_min (main w),
                        tf_max = temp_max (main w), tf_feels_like = feels_like (main w)\<rparr>,
      af_conditions = (case weather w of [] \<Rightarrow> ''unknown'' | d # _ \<Rightarrow> description d),
      af_humidity = humidity (main w),
      af_timestamp = isoformat (timestamp w)\<rparr>
   \<and> to_display_format str_float w = Some
       ([10, 127777, 65039, 32, 67, 108, 105, 109, 97, 32, 101, 109, 32]
        @ map of_char (city_name w)
        @ [10, 84, 101, 109, 112, 101, 114, 97, 116, 117, 114, 97, 58, 32]
        @ map of_char (str_float (temp (main w)))
        @ [176, 67, 32, 40, 115, 101, 110, 115, 97, 231, 227, 111, 58, 32]
        @ map of_char (str_float (feels_like (main w)))
        @ [176, 67, 41, 10, 67, 111, 110, 100, 105, 231, 245, 101, 115, 58, 32]
        @ (case weather w of [] \<Rightarrow> [78, 47, 65] | d # _ \<Rightarrow> map of_char (description d))
        @ [10, 85, 109, 105, 100, 97, 100, 101, 58, 32]
        @ map of_char (str_int (humidity (main w)))
        @ [37, 10])"
proof -
  have t: "line1 = [10, 127777, 65039, 32, 67, 108, 105, 109, 97, 32, 101, 109, 32]"
    "line2 = [10, 84, 101, 109, 112, 101, 114, 97, 116, 117, 114, 97, 58, 32]"
    "feels_open = [176, 67, 32, 40, 115, 101, 110, 115, 97, 231, 227, 111, 58, 32]"
    "line3 = [176, 67, 41, 10, 67, 111, 110, 100, 105, 231, 245, 101, 115, 58, 32]"
    "line4 = [10, 85, 109, 105, 100, 97, 100, 101, 58, 32]"
    "cp ''%'' = [37]" "cp ''N/A'' = [78, 47, 65]"
    by (simp_all add: line1_def line2_def feels_open_def line3_def line4_def cp_def)
  have c: "cp (case weather w of [] \<Rightarrow> ''N/A'' | d # _ \<Rightarrow> description d)
           = (case weather w of [] \<Rightarrow> [78, 47, 65] | d # _ \<Rightarrow> map of_char (description d))"
    by (simp add: t(7) split: list.splits) (simp add: cp_def)
  show ?thesis
    by (simp add: to_agent_format_def to_display_format_def conditions_of_eq c t(1-6))
       (simp add: cp_def)
qed

theorem adapters_total_witness:
  "map_option af_conditions (to_agent_format (\<lambda>t. ''1970-01-01T00:00:00'') plain_data)
     = Some ''unknown''
   \<and> map_option af_conditions (to_agent_format (\<lambda>t. ''1970-01-01T00:00:00'') (lisbon_data 0))
     = Some ''clear sky''
   \<and> to_display_format str_float_sample plain_data = Some
       ([10, 127777, 65039, 32, 67, 108, 105, 109, 97, 32, 101, 109, 32]
        @ [76, 105, 115, 98, 111, 110]
        @ [10, 84, 101, 109, 112, 101, 114, 97, 116, 117, 114, 97, 58, 32]
        @ [50, 53, 46, 53]
        @ [176, 67, 32, 40, 115, 101, 110, 115, 97, 231, 227, 111, 58, 32]
        @ [50, 54, 46, 49, 50, 53]
        @ [176, 67, 41, 10, 67, 111, 110, 100, 105, 231, 245, 101, 115, 58, 32]
        @ [78, 47, 65]
        @ [10, 85, 109, 105, 100, 97, 100, 101, 58, 32]
        @ [54, 48]
        @ [37, 10])
   \<and> to_display_format str_float_sample odd_data = Some
       ([10, 127777, 65039, 32, 67, 108, 105, 109, 97, 32, 101, 109, 32]
        @ [76, 105, 115, 98, 111, 110]
        @ [10, 84, 101, 109, 112, 101, 114, 97, 116, 117, 114, 97, 58, 32]
        @ [45, 48, 46, 48]
        @ [176, 67, 32, 40, 115, 101, 110, 115, 97, 231, 227, 111, 58, 32]
        @ [110, 97, 110]
        @ [176, 67, 41, 10, 67, 111, 110, 100, 105, 231, 245, 101, 115, 58, 32]
        @ [99, 108, 101, 97, 114, 32, 115, 107, 121]
        @ [10, 85, 109, 105, 100, 97, 100, 101, 58, 32]
        @ [54, 48]
        @ [37, 10])"
proof -
  have e: "weather plain_data = []"
    "weather (lisbon_data 0) = [\<lparr>wd_main = ''Clear'', description = ''clear sky'', icon = ''01d''\<rparr>]"
    "weather odd_data = [\<lparr>wd_main = ''Clear'', description = ''clear sky'', icon = ''01d''\<rparr>]"
    "map of_char (city_name plain_data) = [76, 105, 115, 98, 111, 110 :: nat]"
    "map of_char (city_name odd_data) = [76, 105, 115, 98, 111, 110 :: nat]"
    "map of_char (str_float_sample (temp (main plain_data))) = [50, 53, 46, 53 :: nat]"
    "map of_char (str_float_sample (feels_like (main plain_data))) = [50, 54, 46, 49, 50, 53 :: nat]"
    "map of_char (str_float_sample (temp (main odd_data))) = [45, 48, 46, 48 :: nat]"
    "map of_char (str_float_sample (feels_like (main odd_data))) = [110, 97, 110 :: nat]"
    "map of_char ''clear sky'' = [99, 108, 101, 97, 114, 32, 115, 107, 121 :: nat]"
    "map of_char (str_int (humidity (main plain_data))) = [54, 48 :: nat]"
    "map of_char (str_int (humidity (main odd_data))) = [54, 48 :: nat]"
    by code_simp+
  show ?thesis
    using adapters_total [of "\<lambda>t. ''1970-01-01T00:00:00''" plain_data str_float_sample]
      adapters_total [of "\<lambda>t. ''1970-01-01T00:00:00''" "lisbon_data 0" str_float_sample]
      adapters_total [of "\<lambda>t. ''1970-01-01T00:00:00''" odd_data str_float_sample]
    by (simp add: e)
qed

section \<open>Response parsing\<close>

subsection \<open>The timestamp of a parsed record\<close>

lemma WeatherData_of_json_time:
  "WeatherData_of_json L t jn jc m wl =
     map_sum id (\<lambda>w. w\<lparr>timestamp := t\<rparr>) (WeatherData_of_json L t' jn jc m wl)"
  by (simp add: WeatherData_of_json_def split: option.splits json.splits)

lemma bindE_map_sum:
  "(\<And>a. f a = map_sum id g (f' a)) \<Longrightarrow> bindE m f = map_sum id g (bindE m f')"
  by (cases m) (simp_all add: bindE_def)

lemma parse_body_time:
  "parse_body L t data = map_sum id (\<lambda>w. w\<lparr>timestamp := t\<rparr>) (parse_body L t' data)"
proof (cases data)
  case (JDict d)
  show ?thesis unfolding parse_body_def JDict json.case
    by (intro bindE_map_sum WeatherData_of_json_time)
qed (simp_all add: parse_body_def)

lemma parse_body_timestamp: "parse_body L t data = Inr w \<Longrightarrow> timestamp w = t"
  by (auto simp: parse_body_def bindE_def WeatherData_of_json_def split: json.splits sum.splits option.splits)

lemma parse_response_time:
  "parse_response L t data = map_sum id (\<lambda>w. w\<lparr>timestamp := t\<rparr>) (parse_response L t' data)"
  unfolding parse_response_def
  by (subst parse_body_time [of L t data t']) (simp split: sum.splits py_exc.splits)


subsection \<open>Bodies that lack a required field\<close>

lemma build_description_missing:
  "missing_item w \<noteq> [] \<Longrightarrow> build_description L w = Inl (KeyError (hd (missing_item w)))"
  by (cases w)
     (auto simp: missing_item_def absent_def build_description_def bindE_def
           split: option.splits)

lemma build_description_no_KeyError:
  "missing_item w = [] \<Longrightarrow> build_description L w \<noteq> Inl (KeyError k)"
  by (cases w)
     (auto simp: missing_item_def absent_def build_description_def bindE_def
           split: option.splits if_splits)

lemma build_list_missing:
  "concat (map missing_item ws) \<noteq> [] \<Longrightarrow>
     build_list L ws = Inl OtherException
     \<or> build_list L ws = Inl (KeyError (hd (concat (map missing_item ws))))"
proof (induction ws)
  case Nil
  then show ?case by simp
next
  case (Cons w ws)
  show ?case
  proof (cases "missing_item w = []")
    case False
    then show ?thesis by (simp add: build_description_missing bindE_def)
  next
    case True
    with Cons.prems have rest: "concat (map missing_item ws) \<noteq> []" by simp
    show ?thesis
    proof (cases "build_description L w")
      case (Inl e)
      with True have "e = OtherException"
        using build_description_no_KeyError [of w L] by (cases e) auto
      with Inl show ?thesis by (simp add: bindE_def)
    next
      case (Inr d)
      with Cons.IH [OF rest] True show ?thesis by (auto simp: bindE_def)
    qed
  qed
qed

lemma build_list_no_KeyError:
  "concat (map missing_item ws) = [] \<Longrightarrow> build_list L ws \<noteq> Inl (KeyError k)"
proof (induction ws)
  case Nil
  then show ?case by simp
next
  case (Cons w ws)
  then have "missing_item w = []" and "concat (map missing_item ws) = []" by simp_all
  with Cons.IH build_description_no_KeyError [of w L k] show ?case
    by (auto simp: bindE_def split: sum.splits)
qed

lemma build_main_missing:
  "missing_main data \<noteq> [] \<Longrightarrow> build_main L data = Inl (KeyError (hd (missing_main data)))"
  by (auto simp: missing_main_def absent_def build_main_def sub2_def bindE_def
           split: json.splits option.splits if_splits)

lemma build_main_no_KeyError:
  "missing_main (JDict d) = [] \<Longrightarrow> build_main L (JDict d) \<noteq> Inl (KeyError k)"
  by (auto simp: missing_main_def absent_def build_main_def sub2_def bindE_def
                 WeatherMain_of_json_def
           split: json.splits option.splits if_splits sum.splits)


lemma iterate_items:
  "iterate v = Inr items \<Longrightarrow>
     concat (map missing_item items) = (case v of JList ws \<Rightarrow> concat (map missing_item ws) | _ \<Rightarrow> [])"
  by (cases v) (auto simp: missing_item_def)

lemma iterate_error: "iterate v = Inl e \<Longrightarrow> e = OtherException"
  by (cases v) auto

lemma parse_body_missing_main:
  assumes "missing_main data \<noteq> []"
  shows "parse_body L now data = Inl (KeyError (hd (missing_main data)))"
proof -
  from assms obtain d where data: "data = JDict d"
    by (cases data) (simp_all add: missing_main_def)
  have "build_main L data = Inl (KeyError (hd (missing_main data)))"
    using assms by (rule build_main_missing)
  then show ?thesis by (simp add: data parse_body_def bindE_def)
qed

lemma parse_body_missing:
  assumes miss: "missing_fields data \<noteq> []"
  shows "parse_body L now data = Inl OtherException
         \<or> parse_body L now data = Inl (KeyError (hd (missing_fields data)))"
proof -
  from miss obtain d where data: "data = JDict d"
    by (cases data)
       (simp_all add: missing_fields_def missing_main_def missing_item_fields_def missing_name_def)
  show ?thesis
  proof (cases "missing_main data = []")
    case False
    then have "hd (missing_fields data) = hd (missing_main data)"
      by (simp add: missing_fields_def)
    with parse_body_missing_main [OF False, of L now] show ?thesis by simp
  next
    case nomain: True
    let ?v = "case map_of d ''weather'' of Some v \<Rightarrow> v | None \<Rightarrow> JList []"
    have mw: "missing_item_fields data = (case ?v of JList ws \<Rightarrow> concat (map missing_item ws) | _ \<Rightarrow> [])"
      by (simp add: data missing_item_fields_def split: option.splits json.splits)
    show ?thesis
    proof (cases "build_main L data")
      case (Inl e)
      with nomain have "e = OtherException"
        using build_main_no_KeyError [of d L] by (cases e) (auto simp: data)
      with Inl show ?thesis by (simp add: data parse_body_def bindE_def)
    next
      case main_ok: (Inr m)
      show ?thesis
      proof (cases "iterate ?v")
        case (Inl e)
        with main_ok show ?thesis
          using iterate_error [OF Inl] by (simp add: data parse_body_def bindE_def)
      next
        case items: (Inr items)
        have cm: "concat (map missing_item items) = missing_item_fields data"
          using iterate_items [OF items] mw by simp
        show ?thesis
        proof (cases "missing_item_fields data = []")
          case False
          then have "hd (missing_fields data) = hd (concat (map missing_item items))"
            by (simp add: missing_fields_def nomain cm)
          moreover from False cm have "concat (map missing_item items) \<noteq> []" by simp
          note build_list_missing [OF this, of L]
          ultimately show ?thesis using main_ok items
            by (auto simp: data parse_body_def bindE_def)
        next
          case noweather: True
          with miss nomain have name: "missing_name data \<noteq> []"
            by (simp add: missing_fields_def)
          then have nm: "map_of d ''name'' = None"
            by (auto simp: data missing_name_def absent_def split: if_splits)
          from name nm have hdn: "hd (missing_fields data) = ''name''"
            using nomain noweather by (simp add: missing_fields_def data missing_name_def absent_def)
          show ?thesis
          proof (cases "build_list L items")
            case (Inl e)
            with noweather cm have "e = OtherException"
              using build_list_no_KeyError [of items L] by (cases e) auto
            with Inl main_ok items show ?thesis
              by (simp add: data parse_body_def bindE_def)
          next
            case (Inr wl)
            with main_ok items nm hdn show ?thesis
              by (simp add: data parse_body_def bindE_def)
          qed
        qed
      qed
    qed
  qed
qed


text \<open>
  Claim C7, as amended. Two runs of the parser on the same body yield the same failure,
  or two records that agree on every field but the timestamp: the timestamp of a parsed
  record is the clock reading of its own run, so the records are equal exactly when the
  two readings are.
\<close>

theorem parse_response_deterministic_but_timestamp:
  "(case parse_response L t data of
      Inl e \<Rightarrow> parse_response L u data = Inl e
    | Inr w \<Rightarrow> timestamp w = t \<and> parse_response L u data = Inr (w\<lparr>timestamp := u\<rparr>))"
proof (cases "parse_response L t data")
  case (Inl e)
  then show ?thesis using parse_response_time [of L u data t] by simp
next
  case (Inr w)
  then have "parse_body L t data = Inr w"
    by (simp add: parse_response_def split: sum.splits py_exc.splits)
  then have "timestamp w = t" by (rule parse_body_timestamp)
  with Inr show ?thesis using parse_response_time [of L u data t] by simp
qed

theorem parse_response_deterministic_but_timestamp_witness:
  "parse_response lax 7 lisbon_body = Inr ((lisbon_data 0)\<lparr>timestamp := 7\<rparr>)
   \<and> parse_response lax 7 dry_body = Inl (WeatherAPIError (incomplete_msg ''humidity''))"
proof -
  have a: "parse_response lax 0 lisbon_body = Inr (lisbon_data 0)" by code_simp
  have b: "parse_response lax 0 dry_body = Inl (WeatherAPIError (incomplete_msg ''humidity''))"
    by code_simp
  show ?thesis
    using parse_response_deterministic_but_timestamp
            [where L = lax and t = 0 and data = lisbon_body and u = 7]
      parse_response_deterministic_but_timestamp
            [where L = lax and t = 0 and data = dry_body and u = 7]
    by (simp add: a b)
qed

theorem parse_response_timestamp_counterexample:
  "parse_response lax 0 lisbon_body = Inr (lisbon_data 0)
   \<and> parse_response lax 1 lisbon_body = Inr (lisbon_data 1)
   \<and> timestamp (lisbon_data 0) \<noteq> timestamp (lisbon_data 1)"
  by code_simp

subsection \<open>When the missing field is named\<close>

lemma succeeds_iff: "succeeds r \<longleftrightarrow> (\<exists>a. r = Inr a)"
  by (cases r) (simp_all add: succeeds_def)

lemma build_list_lacking:
  "concat (map missing_item ws) \<noteq> [] \<Longrightarrow>
     build_list L ws =
       (if items_clean L ws then Inl (KeyError (hd (concat (map missing_item ws))))
        else Inl OtherException)"
proof (induction ws)
  case Nil
  then show ?case by simp
next
  case (Cons w ws)
  show ?case
  proof (cases "missing_item w = []")
    case False
    then show ?thesis by (simp add: build_description_missing bindE_def)
  next
    case True
    with Cons.prems have rest: "concat (map missing_item ws) \<noteq> []" by simp
    show ?thesis
    proof (cases "build_description L w")
      case (Inl e)
      with True have "e = OtherException"
        using build_description_no_KeyError [of w L] by (cases e) auto
      with Inl True show ?thesis by (simp add: bindE_def succeeds_def)
    next
      case (Inr d)
      with Cons.IH [OF rest] True show ?thesis by (simp add: bindE_def succeeds_def)
    qed
  qed
qed

lemma build_list_complete:
  "concat (map missing_item ws) = [] \<Longrightarrow>
     (if items_clean L ws then succeeds (build_list L ws)
      else build_list L ws = Inl OtherException)"
proof (induction ws)
  case Nil
  then show ?case by (simp add: succeeds_def)
next
  case (Cons w ws)
  then have w: "missing_item w = []" and rest: "concat (map missing_item ws) = []"
    by simp_all
  show ?case
  proof (cases "build_description L w")
    case (Inl e)
    with w have "e = OtherException"
      using build_description_no_KeyError [of w L] by (cases e) auto
    with Inl w show ?thesis by (simp add: bindE_def succeeds_def)
  next
    case (Inr d)
    with Cons.IH [OF rest] w show ?thesis
      by (auto simp: bindE_def succeeds_def split: sum.splits)
  qed
qed

lemma parse_body_lacking:
  assumes miss: "missing_fields data \<noteq> []"
  shows "parse_body L now data =
           (if reads_cleanly L data then Inl (KeyError (hd (missing_fields data)))
            else Inl OtherException)"
proof -
  from miss obtain d where data: "data = JDict d"
    by (cases data)
       (simp_all add: missing_fields_def missing_main_def missing_item_fields_def
          missing_name_def)
  show ?thesis
  proof (cases "missing_main data = []")
    case False
    then have "hd (missing_fields data) = hd (missing_main data)"
      by (simp add: missing_fields_def)
    moreover from False have "reads_cleanly L data" by (simp add: reads_cleanly_def data)
    ultimately show ?thesis using parse_body_missing_main [OF False, of L now] by simp
  next
    case nomain: True
    let ?v = "case map_of d ''weather'' of Some v \<Rightarrow> v | None \<Rightarrow> JList []"
    have rc: "reads_cleanly L data =
                (succeeds (build_main L data) \<and>
                 (case iterate ?v of Inr items \<Rightarrow> items_clean L items | Inl _ \<Rightarrow> False))"
      using nomain by (simp add: reads_cleanly_def data)
    have mw: "missing_item_fields data
                = (case ?v of JList ws \<Rightarrow> concat (map missing_item ws) | _ \<Rightarrow> [])"
      by (simp add: data missing_item_fields_def split: option.splits json.splits)
    show ?thesis
    proof (cases "build_main L data")
      case (Inl e)
      with nomain have "e = OtherException"
        using build_main_no_KeyError [of d L] by (cases e) (auto simp: data)
      with Inl show ?thesis by (simp add: rc succeeds_def) (simp add: data parse_body_def bindE_def)
    next
      case main_ok: (Inr m)
      show ?thesis
      proof (cases "iterate ?v")
        case (Inl e)
        with main_ok show ?thesis
          using iterate_error [OF Inl]
          by (simp add: rc) (simp add: data parse_body_def bindE_def)
      next
        case items: (Inr items)
        have cm: "concat (map missing_item items) = missing_item_fields data"
          using iterate_items [OF items] mw by simp
        have rc': "reads_cleanly L data = items_clean L items"
          using main_ok items by (simp add: rc succeeds_def)
        have pb: "parse_body L now data =
                    bindE (build_list L items) (\<lambda>wl.
                    bindE (subscript data ''name'') (\<lambda>jname.
                    bindE (get_country d) (\<lambda>jc.
                      WeatherData_of_json L now jname jc m wl)))"
          using main_ok items by (simp add: data parse_body_def bindE_def)
        show ?thesis
        proof (cases "missing_item_fields data = []")
          case False
          then have "hd (missing_fields data) = hd (concat (map missing_item items))"
            by (simp add: missing_fields_def nomain cm)
          moreover from False cm have "concat (map missing_item items) \<noteq> []" by simp
          note build_list_lacking [OF this, of L]
          ultimately show ?thesis by (simp add: pb rc' bindE_def)
        next
          case noitems: True
          with miss nomain have name: "missing_name data \<noteq> []"
            by (simp add: missing_fields_def)
          then have nm: "map_of d ''name'' = None"
            by (auto simp: data missing_name_def absent_def split: if_splits)
          from name nm have hdn: "hd (missing_fields data) = ''name''"
            using nomain noitems
            by (simp add: missing_fields_def data missing_name_def absent_def)
          from noitems cm have "concat (map missing_item items) = []" by simp
          note bl = build_list_complete [OF this, of L]
          show ?thesis
          proof (cases "items_clean L items")
            case True
            with bl obtain wl where "build_list L items = Inr wl"
              by (auto simp: succeeds_iff)
            moreover from nm have "subscript data ''name'' = Inl (KeyError ''name'')"
              by (simp add: data)
            ultimately show ?thesis using True hdn by (simp add: pb rc' bindE_def)
          next
            case False
            with bl have "build_list L items = Inl OtherException" by simp
            with False show ?thesis by (simp add: pb rc' bindE_def)
          qed
        qed
      qed
    qed
  qed
qed

text \<open>A body without the list \<open>weather\<close> is read as the body with an empty list.\<close>

lemma parse_body_weather_default:
  assumes "map_of d ''weather'' = None"
  shows "parse_body L now (JDict d) = parse_body L now (JDict ((''weather'', JList []) # d))"
  using assms
  by (simp add: parse_body_def build_main_def sub2_def get_country_def)

text \<open>
  Claim C5, as amended. The fields the parser requires are \<open>main\<close> with its five
  fields, \<open>name\<close>, and the three fields of every item of \<open>weather\<close>; the list
  \<open>weather\<close> itself is optional, and a body without it is read as the body with an
  empty list. Parsing a body that lacks a required field always fails, with a
  \<open>WeatherAPIError\<close>, so no record with a default in place of the field is produced.
  The failure is the one for incomplete data, naming the first missing field in the order
  in which the parser reads the body, exactly when the parser reaches that field: always
  for a field of the \<open>main\<close> block, and for an item field or \<open>name\<close> when the
  \<open>WeatherMain\<close> and the items read before it were built. Otherwise an exception other
  than a \<open>KeyError\<close> came first, and the failure is the one for a processing error, which
  names no field.
\<close>

theorem missing_field_fails:
  "(missing_fields data \<noteq> [] \<longrightarrow>
      parse_response L now data =
        (if reads_cleanly L data
         then Inl (WeatherAPIError (incomplete_msg (hd (missing_fields data))))
         else Inl (WeatherAPIError (processing_msg (exc_text L data)))))
   \<and> (missing_main data \<noteq> [] \<longrightarrow>
        parse_response L now data
          = Inl (WeatherAPIError (incomplete_msg (hd (missing_main data)))))
   \<and> (map_of d ''weather'' = None \<longrightarrow>
        parse_body L now (JDict d) = parse_body L now (JDict ((''weather'', JList []) # d)))"
proof (intro conjI impI)
  assume "missing_fields data \<noteq> []"
  from parse_body_lacking [OF this, of L now]
  show "parse_response L now data =
        (if reads_cleanly L data
         then Inl (WeatherAPIError (incomplete_msg (hd (missing_fields data))))
         else Inl (WeatherAPIError (processing_msg (exc_text L data))))"
    by (simp add: parse_response_def)
next
  assume "missing_main data \<noteq> []"
  from parse_body_missing_main [OF this, of L now]
  show "parse_response L now data
          = Inl (WeatherAPIError (incomplete_msg (hd (missing_main data))))"
    by (simp add: parse_response_def)
next
  assume "map_of d ''weather'' = None"
  then show "parse_body L now (JDict d) = parse_body L now (JDict ((''weather'', JList []) # d))"
    by (rule parse_body_weather_default)
qed

theorem missing_field_fails_witness:
  "parse_response lax 0 dry_body = Inl (WeatherAPIError (incomplete_msg ''humidity''))
   \<and> parse_response lax 0 nameless_body = Inl (WeatherAPIError (incomplete_msg ''name''))
   \<and> parse_response lax 0 iconless_body = Inl (WeatherAPIError (incomplete_msg ''icon''))
   \<and> parse_response lax 0 hot_nameless_body
       = Inl (WeatherAPIError (processing_msg (exc_text lax hot_nameless_body)))"
proof -
  have m: "missing_fields dry_body = [''humidity'']" "missing_fields nameless_body = [''name'']"
    "missing_fields iconless_body = [''icon'']" "missing_fields hot_nameless_body = [''name'']"
    by code_simp+
  have r: "reads_cleanly lax dry_body" "reads_cleanly lax nameless_body"
    "reads_cleanly lax iconless_body" "\<not> reads_cleanly lax hot_nameless_body"
    by code_simp+
  show ?thesis
    using missing_field_fails [where data = dry_body and L = lax and now = 0]
      missing_field_fails [where data = nameless_body and L = lax and now = 0]
      missing_field_fails [where data = iconless_body and L = lax and now = 0]
      missing_field_fails [where data = hot_nameless_body and L = lax and now = 0]
    by (simp add: m r)
qed

text \<open>
  The claim as stated fails in two ways. A body without the documented list \<open>weather\<close>
  parses to a record with the empty list in its place; and a body without \<open>name\<close> whose
  temperature is out of range fails with the processing error, which does not name
  \<open>name\<close>.
\<close>

theorem missing_field_counterexample:
  "documented_missing bare_body = [''weather'']
   \<and> parse_response lax 0 bare_body = Inr (bare_data 0)
   \<and> weather (bare_data 0) = []
   \<and> documented_missing hot_nameless_body = [''name'']
   \<and> parse_response lax 0 hot_nameless_body
       = Inl (WeatherAPIError (processing_msg (exc_text lax hot_nameless_body)))
   \<and> processing_msg (exc_text lax hot_nameless_body) \<noteq> incomplete_msg ''name''"
  by code_simp

section \<open>Fetching\<close>

lemma fetch_requests: "snd (fetch_from_api E cfg city) = [build_request cfg city]"
  by (simp add: fetch_from_api_def Let_def)

lemma http_error_msg_eq:
  "400 \<le> status_code r \<Longrightarrow> status_code r < 600 \<Longrightarrow>
     http_error_msg r = Some (str_int (status_code r)
        @ (if status_code r < 500 then '' Client Error: '' else '' Server Error: '')
        @ reason r @ '' for url: '' @ url r)"
  by (simp add: http_error_msg_def)

text \<open>
  Claim C4, as amended. A fetch whose response has a status from 400 to 599, the
  statuses for which \<open>raise_for_status\<close> raises, fails after exactly one request: with
  \<open>CityNotFoundError\<close>, whose message holds the queried city name, for 404; with
  \<open>InvalidAPIKeyError\<close> for 401; and with the base \<open>WeatherAPIError\<close>, whose message holds
  the status, the reason phrase and the URL of the response, for any other of them. A
  response with any other status, also one outside 200 to 299 (below 200, from 300 to
  399, 600 and above), is not a failure to the client: its body is read and parsed as
  the body of a success.
\<close>

theorem fetch_by_status:
  assumes "send E (build_request cfg city) = Inr r"
  shows "fetch_from_api E cfg city =
     (if 400 \<le> status_code r \<and> status_code r < 600
      then Inl (if status_code r = 404 then CityNotFoundError (city_not_found_msg city)
                else if status_code r = 401 then InvalidAPIKeyError invalid_key_msg
                else WeatherAPIError (api_error_msg (str_int (status_code r)
                       @ (if status_code r < 500 then '' Client Error: ''
                          else '' Server Error: '')
                       @ reason r @ '' for url: '' @ url r)))
      else (case json_result r of
              Inl x \<Rightarrow> Inl (handle_raised city x)
            | Inr data \<Rightarrow>
                (case parse_response (lib E) (now_parse E) data of
                   Inl e \<Rightarrow> Inl (WeatherAPIError (unexpected_msg (str_error e)))
                 | Inr w \<Rightarrow> Inr w)),
      [build_request cfg city])"
proof (cases "400 \<le> status_code r \<and> status_code r < 600")
  case True
  with assms show ?thesis
    by (simp add: fetch_from_api_def Let_def http_error_msg_eq handle_http_error_def)
next
  case False
  then have "http_error_msg r = None" by (auto simp: http_error_msg_def)
  with assms have "fetch_from_api E cfg city =
     ((case json_result r of
         Inl x \<Rightarrow> Inl (handle_raised city x)
       | Inr data \<Rightarrow>
           (case parse_response (lib E) (now_parse E) data of
              Inl e \<Rightarrow> Inl (WeatherAPIError (unexpected_msg (str_error e)))
            | Inr w \<Rightarrow> Inr w)),
      [build_request cfg city])"
    by (simp add: fetch_from_api_def Let_def)
  then show ?thesis by (simp only: False if_False)
qed

theorem fetch_by_status_witness:
  "fetch_from_api (answering 404 ''Not Found'' 0) test_config ''Atlantis'' =
     (Inl (CityNotFoundError (''Cidade '' @ [CHR 0x27] @ ''Atlantis'' @ [CHR 0x27]
             @ '' n'' @ [CHR 0xE3] @ ''o encontrada'')),
      [lisbon_request\<lparr>q := ''Atlantis''\<rparr>])
   \<and> fetch_from_api (answering 401 ''Unauthorized'' 0) test_config ''Lisbon'' =
     (Inl (InvalidAPIKeyError invalid_key_msg), [lisbon_request])
   \<and> fetch_from_api (answering 503 ''Service Unavailable'' 0) test_config ''Lisbon'' =
     (Inl (WeatherAPIError
        ''Erro na API: 503 Server Error: Service Unavailable for url: https://api.test/weather''),
      [lisbon_request])
   \<and> fetch_from_api (answering 200 ''OK'' 0) test_config ''Lisbon'' =
     (Inr (lisbon_data 0), [lisbon_request])"
proof -
  let ?r = "\<lambda>st rs. \<lparr>status_code = st, reason = rs, url = ''https://api.test/weather'',
                      json_result = Inr lisbon_body\<rparr>"
  have s1: "send (answering 404 ''Not Found'' 0) (build_request test_config ''Atlantis'')
              = Inr (?r 404 ''Not Found'')"
    and s2: "send (answering 401 ''Unauthorized'' 0) (build_request test_config ''Lisbon'')
              = Inr (?r 401 ''Unauthorized'')"
    and s3: "send (answering 503 ''Service Unavailable'' 0) (build_request test_config ''Lisbon'')
              = Inr (?r 503 ''Service Unavailable'')"
    and s4: "send (answering 200 ''OK'' 0) (build_request test_config ''Lisbon'')
              = Inr (?r 200 ''OK'')"
    by code_simp+
  have b: "build_request test_config ''Atlantis'' = lisbon_request\<lparr>q := ''Atlantis''\<rparr>"
    "build_request test_config ''Lisbon'' = lisbon_request"
    "str_int 503 = ''503''"
    "parse_response (lib (answering 200 ''OK'' 0)) (now_parse (answering 200 ''OK'' 0))
       lisbon_body = Inr (lisbon_data 0)"
    by code_simp+
  show ?thesis
    using fetch_by_status [OF s1] fetch_by_status [OF s2] fetch_by_status [OF s3]
      fetch_by_status [OF s4]
    by (simp add: b city_not_found_msg_def api_error_msg_def)
qed

text \<open>
  The claim as stated fails at a status that is neither a success nor in 400 to 599: a
  response with status 304 and the body of Lisbon is parsed, and the fetch returns its
  record.
\<close>

theorem fetch_not_modified_counterexample:
  "fetch_from_api (answering 304 ''Not Modified'' 0) test_config ''Lisbon''
     = (Inr (lisbon_data 0), [lisbon_request])"
  by code_simp

section \<open>The cache store\<close>

lemma update_fresh_key: "k \<notin> fst ` set al \<Longrightarrow> AList.update k v al = al @ [(k, v)]"
  by (induction al) auto

lemma update_after_delete:
  "AList.update k v (AList.delete k al) = AList.delete k al @ [(k, v)]"
  by (rule update_fresh_key) (rule delete_notin_dom)

lemma delete_absent: "map_of al k = None \<Longrightarrow> AList.delete k al = al"
  by (simp add: map_of_eq_None_iff)

text \<open>In a dict, deleting a key removes the one item that holds it.\<close>

lemma delete_is_remove1:
  "distinct (map fst al) \<Longrightarrow> map_of al k = Some v \<Longrightarrow> AList.delete k al = remove1 (k, v) al"
proof (induction al)
  case Nil
  then show ?case by simp
next
  case (Cons p al)
  show ?case
  proof (cases "fst p = k")
    case True
    with Cons.prems have "p = (k, v)" by (cases p) simp
    moreover from True Cons.prems have "k \<notin> fst ` set al" by auto
    ultimately show ?thesis by simp
  next
    case False
    with Cons show ?thesis by (cases p) auto
  qed
qed

lemma fetch_and_store_eq:
  "fetch_and_store E s city k =
     (case fst (fetch_from_api E (config s) city) of
        Inl err \<Rightarrow> (Inl err, s, [build_request (config s) city])
      | Inr w \<Rightarrow>
          (Inr w,
           s\<lparr>cache := AList.update k \<lparr>entry_data = w, entry_timestamp = Some (now_store E)\<rparr> (cache s)\<rparr>,
           [build_request (config s) city]))"
  using fetch_requests [of E "config s" city]
  by (cases "fetch_from_api E (config s) city")
     (simp add: fetch_and_store_def split: sum.splits)

lemma get_weather_hit:
  "strip city \<noteq> [] \<Longrightarrow> map_of (cache s) (city_key_of city) = Some e \<Longrightarrow>
   is_cache_valid (now_check E) s e \<Longrightarrow>
     get_weather E s city = (Inr (entry_data e), s, [])"
  by (simp add: get_weather_def nonempty_city Let_def)

lemma get_weather_stale:
  "strip city \<noteq> [] \<Longrightarrow> map_of (cache s) (city_key_of city) = Some e \<Longrightarrow>
   \<not> is_cache_valid (now_check E) s e \<Longrightarrow>
     get_weather E s city =
       fetch_and_store E (s\<lparr>cache := AList.delete (city_key_of city) (cache s)\<rparr>) city
         (city_key_of city)"
  by (simp add: get_weather_def nonempty_city Let_def)

lemma get_weather_miss:
  "strip city \<noteq> [] \<Longrightarrow> map_of (cache s) (city_key_of city) = None \<Longrightarrow>
     get_weather E s city = fetch_and_store E s city (city_key_of city)"
  by (simp add: get_weather_def nonempty_city Let_def)

lemma cached_key_nonempty:
  assumes "tool_inv s" and "map_of (cache s) (city_key_of city) = Some e"
  shows "strip city \<noteq> []"
proof -
  from assms(2) have "city_key_of city \<in> set (map fst (cache s))"
    by (auto dest: map_of_SomeD intro: rev_image_eqI)
  with assms(1) have "city_key_of city \<noteq> []" unfolding tool_inv_def by metis
  then show ?thesis by (simp add: city_key_empty_iff)
qed

text \<open>A call that sent a request and returned a record has stored the record.\<close>

lemma get_weather_fetched:
  assumes "get_weather E s city = (Inr w, s1, reqs)" and "reqs \<noteq> []"
  shows "strip city \<noteq> []"
    and "map_of (cache s1) (city_key_of city)
           = Some \<lparr>entry_data = w, entry_timestamp = Some (now_store E)\<rparr>"
    and "cache_duration s1 = cache_duration s"
proof -
  show ne: "strip city \<noteq> []"
    using assms by (auto simp: get_weather_def)
  let ?k = "city_key_of city"
  have "map_of (cache s1) ?k = Some \<lparr>entry_data = w, entry_timestamp = Some (now_store E)\<rparr>
        \<and> cache_duration s1 = cache_duration s"
  proof (cases "map_of (cache s) ?k")
    case None
    with assms ne show ?thesis
      by (auto simp: get_weather_miss fetch_and_store_eq update_conv' split: sum.splits)
  next
    case (Some e)
    show ?thesis
    proof (cases "is_cache_valid (now_check E) s e")
      case True
      with assms ne Some show ?thesis by (simp add: get_weather_hit)
    next
      case False
      with assms ne Some show ?thesis
        by (auto simp: get_weather_stale fetch_and_store_eq update_conv' split: sum.splits)
    qed
  qed
  then show "map_of (cache s1) ?k = Some \<lparr>entry_data = w, entry_timestamp = Some (now_store E)\<rparr>"
    and "cache_duration s1 = cache_duration s" by simp_all
qed

subsection \<open>The invariant of the tool\<close>

lemma tool_inv_init: "tool_inv (WeatherTool_init cfg)"
  by (simp add: tool_inv_def WeatherTool_init_def)

lemma keys_delete:
  assumes "distinct (map fst al)" and "[] \<notin> set (map fst al)"
  shows "distinct (map fst (AList.delete k al))" and "[] \<notin> set (map fst (AList.delete k al))"
  using assms by (simp_all add: delete_keys distinct_removeAll)

lemma keys_update:
  assumes "distinct (map fst al)" and "[] \<notin> set (map fst al)" and "k \<noteq> []"
  shows "distinct (map fst (AList.update k v al))" and "[] \<notin> set (map fst (AList.update k v al))"
  using assms by (simp_all add: update_keys)

lemma tool_inv_delete:
  assumes "tool_inv s"
  shows "tool_inv (s\<lparr>cache := AList.delete k (cache s)\<rparr>)"
  using assms keys_delete [of "cache s" k] unfolding tool_inv_def by simp

lemma tool_inv_update:
  assumes "tool_inv s" and "k \<noteq> []"
  shows "tool_inv (s\<lparr>cache := AList.update k v (cache s)\<rparr>)"
  using assms keys_update [of "cache s" k v] unfolding tool_inv_def by simp

lemma tool_inv_fetch_and_store:
  assumes "tool_inv s" and "k \<noteq> []"
  shows "tool_inv (fst (snd (fetch_and_store E s city k)))"
  using assms
  by (simp add: fetch_and_store_eq tool_inv_update split: sum.splits)

lemma tool_inv_get_weather:
  assumes "tool_inv s"
  shows "tool_inv (fst (snd (get_weather E s city)))"
proof (cases "strip city = []")
  case True
  with assms show ?thesis by (simp add: get_weather_def)
next
  case False
  then have k: "city_key_of city \<noteq> []" by (simp add: city_key_empty_iff)
  show ?thesis
  proof (cases "map_of (cache s) (city_key_of city)")
    case None
    with False assms k show ?thesis
      by (simp add: get_weather_miss tool_inv_fetch_and_store)
  next
    case (Some e)
    show ?thesis
    proof (cases "is_cache_valid (now_check E) s e")
      case True
      with False Some assms show ?thesis by (simp add: get_weather_hit)
    next
      case stale: False
      from assms have "tool_inv (s\<lparr>cache := AList.delete (city_key_of city) (cache s)\<rparr>)"
        by (rule tool_inv_delete)
      from tool_inv_fetch_and_store [OF this k] False Some stale show ?thesis
        by (simp add: get_weather_stale)
    qed
  qed
qed

lemma tool_inv_clear_cache: "tool_inv s \<Longrightarrow> tool_inv (snd (clear_cache s))"
  by (simp add: tool_inv_def clear_cache_def)


subsection \<open>Rejected names\<close>

text \<open>
  Claim C6. When the cache key of the city (lowercased, stripped) is empty, the lookup
  fails with the \<open>WeatherAPIError\<close> for an empty name, whatever the network and the
  clock are: it sends no request and leaves the cache as it is.
\<close>

theorem empty_city_rejected:
  "city_key_of city = [] \<Longrightarrow>
     get_weather E s city = (Inl (WeatherAPIError empty_city_msg), s, [])"
  by (simp add: city_key_empty_iff get_weather_def)

theorem empty_city_rejected_witness:
  "get_weather (answering 200 ''OK'' 0) (tool_with_lisbon 0) [CHR 0x09, CHR '' '', CHR 0xA0]
     = (Inl (WeatherAPIError empty_city_msg), tool_with_lisbon 0, [])"
proof -
  have "city_key_of [CHR 0x09, CHR '' '', CHR 0xA0] = []" by code_simp
  then show ?thesis by (rule empty_city_rejected)
qed

subsection \<open>Hits\<close>

text \<open>
  Claim C1, as amended. When a lookup of city C fetched its record (it sent a request
  and returned a record, which it stored with the clock reading T of the insertion), the
  next lookup of C whose freshness check reads a time less than ten minutes after T
  returns the same record, sends no request and leaves the tool as it is. The window
  counts from the insertion of the entry, not from the last lookup that succeeded.
\<close>

theorem hit_after_fetch:
  assumes inv: "tool_inv s"
    and first: "get_weather E1 s city = (Inr w, s1, reqs)"
    and fetched: "reqs \<noteq> []"
    and fresh: "now_check E2 - now_store E1 < ten_minutes"
  shows "get_weather E2 s1 city = (Inr w, s1, [])"
proof -
  note f = get_weather_fetched [OF first fetched]
  from inv have "cache_duration s = ten_minutes" by (simp add: tool_inv_def)
  with fresh f(3) have
    "is_cache_valid (now_check E2) s1 \<lparr>entry_data = w, entry_timestamp = Some (now_store E1)\<rparr>"
    by (simp add: is_cache_valid_def)
  from get_weather_hit [OF f(1) f(2) this] show ?thesis by simp
qed

theorem hit_after_fetch_witness:
  "get_weather (answering 503 ''Service Unavailable'' (minutes 9)) (tool_with_lisbon 0) ''LISBON''
     = (Inr (lisbon_data 0), tool_with_lisbon 0, [])"
proof -
  have inv: "tool_inv (WeatherTool_init test_config)" by (rule tool_inv_init)
  have first: "get_weather (answering 200 ''OK'' 0) (WeatherTool_init test_config) ''LISBON''
                 = (Inr (lisbon_data 0), tool_with_lisbon 0, [lisbon_request\<lparr>q := ''LISBON''\<rparr>])"
    by code_simp
  have fetched: "[lisbon_request\<lparr>q := ''LISBON''\<rparr>] \<noteq> []" by simp
  have fresh: "now_check (answering 503 ''Service Unavailable'' (minutes 9))
                 - now_store (answering 200 ''OK'' 0) < ten_minutes"
    by code_simp
  show ?thesis by (rule hit_after_fetch [OF inv first fetched fresh])
qed

text \<open>
  The claim as stated fails when the lookup at T is itself a hit: a record inserted at
  minute 0 is returned by the lookup at minute 9, and the lookup at minute 18, nine
  minutes later, finds the entry stale and fetches again.
\<close>

theorem hit_then_stale_counterexample:
  "get_weather (answering 200 ''OK'' 0) (WeatherTool_init test_config) ''Lisbon''
     = (Inr (lisbon_data 0), tool_with_lisbon 0, [lisbon_request])
   \<and> get_weather (answering 200 ''OK'' (minutes 9)) (tool_with_lisbon 0) ''Lisbon''
     = (Inr (lisbon_data 0), tool_with_lisbon 0, [])
   \<and> minutes 18 - minutes 9 < ten_minutes
   \<and> get_weather (answering 200 ''OK'' (minutes 18)) (tool_with_lisbon 0) ''Lisbon''
     = (Inr (lisbon_data (minutes 18)), tool_with_lisbon (minutes 18), [lisbon_request])
   \<and> lisbon_data (minutes 18) \<noteq> lisbon_data 0"
  by code_simp


subsection \<open>Expiry\<close>

text \<open>
  Claim C2. When the cache holds an entry for the key of city C, inserted at T, and the
  freshness check reads a time at least ten minutes after T, the lookup removes that
  entry and sends exactly one request; its result is the result of that fetch. When the
  fetch returns a record, the cache afterwards is the old cache without the stale entry,
  followed by one new entry under the same key: the new record with the clock reading of
  the insertion. When the fetch fails, the cache afterwards is the old cache without the
  stale entry. Every other entry stays as it was.
\<close>

theorem stale_entry_refetched:
  assumes inv: "tool_inv s"
    and entry: "map_of (cache s) (city_key_of city) = Some e"
    and ts: "entry_timestamp e = Some T"
    and stale: "ten_minutes \<le> now_check E - T"
  shows "get_weather E s city =
     (case fst (fetch_from_api E (config s) city) of
        Inl err \<Rightarrow>
          (Inl err,
           s\<lparr>cache := remove1 (city_key_of city, e) (cache s)\<rparr>,
           [build_request (config s) city])
      | Inr w \<Rightarrow>
          (Inr w,
           s\<lparr>cache := remove1 (city_key_of city, e) (cache s)
                @ [(city_key_of city,
                    \<lparr>entry_data = w, entry_timestamp = Some (now_store E)\<rparr>)]\<rparr>,
           [build_request (config s) city]))
    \<and> map_of (cache (fst (snd (get_weather E s city)))) (city_key_of city) =
        (case fst (fetch_from_api E (config s) city) of
           Inl err \<Rightarrow> None
         | Inr w \<Rightarrow> Some \<lparr>entry_data = w, entry_timestamp = Some (now_store E)\<rparr>)
    \<and> (\<forall>k. k \<noteq> city_key_of city \<longrightarrow>
          map_of (cache (fst (snd (get_weather E s city)))) k = map_of (cache s) k)"
proof -
  let ?k = "city_key_of city"
  have ne: "strip city \<noteq> []" using inv entry by (rule cached_key_nonempty)
  from inv have "cache_duration s = ten_minutes" by (simp add: tool_inv_def)
  with ts stale have "\<not> is_cache_valid (now_check E) s e"
    by (simp add: is_cache_valid_def)
  note gw = get_weather_stale [OF ne entry this]
  from inv have "distinct (map fst (cache s))" by (simp add: tool_inv_def)
  then have rm: "AList.delete ?k (cache s) = remove1 (?k, e) (cache s)"
    using entry by (rule delete_is_remove1)
  have none: "map_of (AList.delete ?k (cache s)) ?k = None" by (simp add: delete_conv')
  have eq: "get_weather E s city =
     (case fst (fetch_from_api E (config s) city) of
        Inl err \<Rightarrow>
          (Inl err, s\<lparr>cache := AList.delete ?k (cache s)\<rparr>, [build_request (config s) city])
      | Inr w \<Rightarrow>
          (Inr w,
           s\<lparr>cache := AList.delete ?k (cache s)
                @ [(?k, \<lparr>entry_data = w, entry_timestamp = Some (now_store E)\<rparr>)]\<rparr>,
           [build_request (config s) city]))"
    by (simp add: gw fetch_and_store_eq update_after_delete split: sum.splits)
  show ?thesis
  proof (intro conjI allI impI)
    show "get_weather E s city =
     (case fst (fetch_from_api E (config s) city) of
        Inl err \<Rightarrow>
          (Inl err, s\<lparr>cache := remove1 (?k, e) (cache s)\<rparr>, [build_request (config s) city])
      | Inr w \<Rightarrow>
          (Inr w,
           s\<lparr>cache := remove1 (?k, e) (cache s)
                @ [(?k, \<lparr>entry_data = w, entry_timestamp = Some (now_store E)\<rparr>)]\<rparr>,
           [build_request (config s) city]))"
      using eq by (simp only: rm)
    show "map_of (cache (fst (snd (get_weather E s city)))) ?k =
        (case fst (fetch_from_api E (config s) city) of
           Inl err \<Rightarrow> None
         | Inr w \<Rightarrow> Some \<lparr>entry_data = w, entry_timestamp = Some (now_store E)\<rparr>)"
      by (simp add: eq none map_add_def split: sum.splits)
    show "map_of (cache (fst (snd (get_weather E s city)))) k = map_of (cache s) k"
      if "k \<noteq> ?k" for k
      using that by (auto simp: eq map_add_def split: sum.splits option.splits)
  qed
qed

theorem stale_entry_refetched_witness:
  "get_weather (answering 200 ''OK'' (minutes 10)) (tool_with_lisbon 0) ''LISBON''
     = (Inr (lisbon_data (minutes 10)), tool_with_lisbon (minutes 10),
        [lisbon_request\<lparr>q := ''LISBON''\<rparr>])"
proof -
  let ?E = "answering 200 ''OK'' (minutes 10)"
  let ?e = "\<lparr>entry_data = lisbon_data 0, entry_timestamp = Some 0\<rparr>"
  have inv: "tool_inv (tool_with_lisbon 0)" by code_simp
  have entry: "map_of (cache (tool_with_lisbon 0)) (city_key_of ''LISBON'') = Some ?e"
    by code_simp
  have ts: "entry_timestamp ?e = Some 0" by simp
  have stale: "ten_minutes \<le> now_check ?E - 0" by code_simp
  have "get_weather ?E (tool_with_lisbon 0) ''LISBON'' =
     (case fst (fetch_from_api ?E (config (tool_with_lisbon 0)) ''LISBON'') of
        Inl err \<Rightarrow>
          (Inl err,
           (tool_with_lisbon 0)\<lparr>cache := remove1 (city_key_of ''LISBON'', ?e)
              (cache (tool_with_lisbon 0))\<rparr>,
           [build_request (config (tool_with_lisbon 0)) ''LISBON''])
      | Inr w \<Rightarrow>
          (Inr w,
           (tool_with_lisbon 0)\<lparr>cache := remove1 (city_key_of ''LISBON'', ?e)
              (cache (tool_with_lisbon 0))
                @ [(city_key_of ''LISBON'',
                    \<lparr>entry_data = w, entry_timestamp = Some (now_store ?E)\<rparr>)]\<rparr>,
           [build_request (config (tool_with_lisbon 0)) ''LISBON'']))"
    by (rule conjunct1 [OF stale_entry_refetched [OF inv entry ts stale]])
  also have "\<dots> = (Inr (lisbon_data (minutes 10)), tool_with_lisbon (minutes 10),
        [lisbon_request\<lparr>q := ''LISBON''\<rparr>])"
    by code_simp
  finally show ?thesis .
qed

subsection \<open>A failed refetch\<close>

text \<open>
  Claim C10. When the lookup finds a stale entry for the key and the fetch that follows
  fails, the call returns the error of the fetch and the tool keeps the eviction: the
  cache afterwards is the old cache without the entry, so it has no entry for the key,
  though it had one before the call.
\<close>

theorem failed_refetch_keeps_eviction:
  assumes inv: "tool_inv s"
    and entry: "map_of (cache s) (city_key_of city) = Some e"
    and ts: "entry_timestamp e = Some T"
    and stale: "ten_minutes \<le> now_check E - T"
    and fails: "fst (fetch_from_api E (config s) city) = Inl err"
  shows "get_weather E s city =
           (Inl err, s\<lparr>cache := AList.delete (city_key_of city) (cache s)\<rparr>,
            [build_request (config s) city])
    \<and> map_of (cache (fst (snd (get_weather E s city)))) (city_key_of city) = None"
proof -
  have ne: "strip city \<noteq> []" using inv entry by (rule cached_key_nonempty)
  from inv have "cache_duration s = ten_minutes" by (simp add: tool_inv_def)
  with ts stale have "\<not> is_cache_valid (now_check E) s e"
    by (simp add: is_cache_valid_def)
  note gw = get_weather_stale [OF ne entry this]
  have eq: "get_weather E s city =
           (Inl err, s\<lparr>cache := AList.delete (city_key_of city) (cache s)\<rparr>,
            [build_request (config s) city])"
    using fails by (simp add: gw fetch_and_store_eq)
  then show ?thesis by (simp add: delete_conv')
qed

theorem failed_refetch_keeps_eviction_witness:
  "get_weather (answering 503 ''Service Unavailable'' (minutes 10)) (tool_with_lisbon 0) ''Lisbon''
     = (Inl (WeatherAPIError
          ''Erro na API: 503 Server Error: Service Unavailable for url: https://api.test/weather''),
        WeatherTool_init test_config, [lisbon_request])"
proof -
  let ?E = "answering 503 ''Service Unavailable'' (minutes 10)"
  let ?e = "\<lparr>entry_data = lisbon_data 0, entry_timestamp = Some 0\<rparr>"
  let ?err = "WeatherAPIError
          ''Erro na API: 503 Server Error: Service Unavailable for url: https://api.test/weather''"
  have inv: "tool_inv (tool_with_lisbon 0)" by code_simp
  have entry: "map_of (cache (tool_with_lisbon 0)) (city_key_of ''Lisbon'') = Some ?e"
    by code_simp
  have ts: "entry_timestamp ?e = Some 0" by simp
  have stale: "ten_minutes \<le> now_check ?E - 0" by code_simp
  have fails: "fst (fetch_from_api ?E (config (tool_with_lisbon 0)) ''Lisbon'') = Inl ?err"
    by code_simp
  have "get_weather ?E (tool_with_lisbon 0) ''Lisbon'' =
          (Inl ?err,
           (tool_with_lisbon 0)\<lparr>cache := AList.delete (city_key_of ''Lisbon'')
              (cache (tool_with_lisbon 0))\<rparr>,
           [build_request (config (tool_with_lisbon 0)) ''Lisbon''])"
    by (rule conjunct1 [OF failed_refetch_keeps_eviction [OF inv entry ts stale fails]])
  also have "\<dots> = (Inl ?err, WeatherTool_init test_config, [lisbon_request])"
    by code_simp
  finally show ?thesis .
qed

subsection \<open>Clearing the cache\<close>

text \<open>
  Claim C8, as amended. \<open>clear_cache\<close> removes every entry and returns \<open>None\<close>; the
  number of entries it removed goes into its log message only. After it, the cache
  statistics report no city, no valid entry, no expired entry and an empty list of keys.
\<close>

theorem clear_cache_empties:
  "fst (clear_cache s) = None
   \<and> cache (snd (clear_cache s)) = []
   \<and> clear_cache_logged s = length (cache s) - length (cache (snd (clear_cache s)))
   \<and> get_cache_info clk (snd (clear_cache s)) =
       \<lparr>total_cities = 0, valid_entries = 0, expired_entries = 0,
        cache_duration_minutes = of_int (cache_duration s) / 1000000 / 60,
        cached_cities = []\<rparr>"
  by (simp add: clear_cache_def clear_cache_logged_def get_cache_info_def)

theorem clear_cache_empties_witness:
  "get_cache_info (\<lambda>i. minutes 3) (snd (clear_cache (tool_with_lisbon 0))) =
       \<lparr>total_cities = 0, valid_entries = 0, expired_entries = 0,
        cache_duration_minutes = 10, cached_cities = []\<rparr>
   \<and> clear_cache_logged (tool_with_lisbon 0) = 1"
proof -
  have d: "cache_duration (tool_with_lisbon 0) = 600000000"
    "length (cache (tool_with_lisbon 0)) = 1"
    by code_simp+
  show ?thesis
    using clear_cache_empties [of "tool_with_lisbon 0" "\<lambda>i. minutes 3"] by (simp add: d)
qed

theorem clear_cache_returns_none_counterexample:
  "fst (clear_cache (tool_with_lisbon 0)) = None
   \<and> length (cache (tool_with_lisbon 0))
       - length (cache (snd (clear_cache (tool_with_lisbon 0)))) = 1
   \<and> get_cache_info (\<lambda>i. minutes 3) (tool_with_lisbon 0) =
       \<lparr>total_cities = 1, valid_entries = 1, expired_entries = 0,
        cache_duration_minutes = 10, cached_cities = [''lisbon'']\<rparr>"
  by code_simp

end
